theory Spec2Isabelle
  imports Complex_Main
begin

chapter \<open>The model\<close>

section \<open>Python values\<close>

text \<open>
  The documents the library handles are what \<^verbatim>\<open>json.loads\<close> returns: \<^verbatim>\<open>None\<close>, booleans,
  integers, floats, strings, lists and dictionaries with string keys. A dictionary is an
  association list in insertion order; a dictionary read from JSON has distinct keys.
  A float is modelled by the real number it denotes (the comparisons with the integer
  bounds of the schemas are exact on floats); NaN and the infinities are left out.
\<close>

datatype json =
    JNull
  | JBool bool
  | JInt int
  | JFloat real
  | JStr string
  | JList "json list"
  | JObj "(string \<times> json) list"

text \<open>The exceptions a modelled operation can raise.\<close>

datatype exn =
    KeyError string
  | AttributeError string
  | AssertionError string
  | TypeError string
  | IndexError string
  | MultipleInvalid
  | OtherError string

text \<open>\<^verbatim>\<open>d[k]\<close> on a dictionary, and \<^verbatim>\<open>d[k] = v\<close>: an existing key keeps its place.\<close>

definition dict_get :: "(string \<times> 'v) list \<Rightarrow> string \<Rightarrow> exn + 'v" where
  "dict_get d k = (case map_of d k of None \<Rightarrow> Inl (KeyError k) | Some v \<Rightarrow> Inr v)"

fun dict_set :: "(string \<times> 'v) list \<Rightarrow> string \<Rightarrow> 'v \<Rightarrow> (string \<times> 'v) list" where
  "dict_set [] k v = [(k, v)]"
| "dict_set ((k', v') # d) k v = (if k' = k then (k, v) # d else (k', v') # dict_set d k v)"

text \<open>Truth value testing of a value (\<^verbatim>\<open>if x:\<close>).\<close>

fun truthy :: "json \<Rightarrow> bool" where
  "truthy JNull = False"
| "truthy (JBool b) = b"
| "truthy (JInt i) = (i \<noteq> 0)"
| "truthy (JFloat r) = (r \<noteq> 0)"
| "truthy (JStr s) = (s \<noteq> [])"
| "truthy (JList xs) = (xs \<noteq> [])"
| "truthy (JObj kvs) = (kvs \<noteq> [])"

text \<open>The number a value denotes in a comparison; \<^verbatim>\<open>bool\<close> is a subclass of \<^verbatim>\<open>int\<close>.\<close>

fun num_of :: "json \<Rightarrow> real option" where
  "num_of (JBool b) = Some (if b then 1 else 0)"
| "num_of (JInt i) = Some (of_int i)"
| "num_of (JFloat r) = Some r"
| "num_of _ = None"

text \<open>\<^verbatim>\<open>str.capitalize()\<close> on ASCII text: the first character in upper case, the rest in lower case.\<close>

definition to_upper :: "char \<Rightarrow> char" where
  "to_upper c = (case map_of (zip ''abcdefghijklmnopqrstuvwxyz'' ''ABCDEFGHIJKLMNOPQRSTUVWXYZ'') c of
     None \<Rightarrow> c | Some u \<Rightarrow> u)"

definition to_lower :: "char \<Rightarrow> char" where
  "to_lower c = (case map_of (zip ''ABCDEFGHIJKLMNOPQRSTUVWXYZ'' ''abcdefghijklmnopqrstuvwxyz'') c of
     None \<Rightarrow> c | Some l \<Rightarrow> l)"

definition capitalize :: "string \<Rightarrow> string" where
  "capitalize s = (case s of [] \<Rightarrow> [] | c # cs \<Rightarrow> to_upper c # map to_lower cs)"

section \<open>The voluptuous validators the schemas use\<close>

text \<open>
  The schemas of \<^verbatim>\<open>schema/schedule.py\<close> and \<^verbatim>\<open>schema/config.py\<close> are built from a few
  voluptuous validators. A schema is a term of the datatype below, and \<open>validates\<close> says
  whether calling the schema on a document returns (rather than raising \<^verbatim>\<open>Invalid\<close>):
  \<^item> \<open>vol_bool b\<close>, \<open>vol_str s\<close>: a literal; the document must compare equal to it
    (\<^verbatim>\<open>1 == True\<close> in Python);
  \<^item> \<open>vol_type t\<close>: a class; the document must be an instance of it;
  \<^item> \<open>vol_Any\<close>, \<open>vol_All\<close>: one of, each of;
  \<^item> \<open>vol_Range lo hi\<close>: \<open>lo \<le> v \<le> hi\<close>, a value that cannot be compared is refused;
  \<^item> \<open>vol_Datetime fmt\<close>: \<^verbatim>\<open>datetime.strptime(v, fmt)\<close> succeeds;
  \<^item> \<open>vol_list ss\<close>: a list, each element accepted by one of \<open>ss\<close>;
  \<^item> \<open>vol_Schema ms\<close>: a dictionary schema with \<^verbatim>\<open>extra=PREVENT_EXTRA\<close>: every key of the
    document is a key of the schema and its value is accepted, and every required key is there.
\<close>

datatype pytype = Py_str | Py_int | Py_float | Py_bool

datatype schema =
    vol_bool bool
  | vol_str string
  | vol_type pytype
  | vol_Any "schema list"
  | vol_All "schema list"
  | vol_Range real real
  | vol_Datetime string
  | vol_list "schema list"
  | vol_Schema "marker list"
and marker =
    vol_Required string schema
  | vol_Optional string schema

fun isinstance :: "json \<Rightarrow> pytype \<Rightarrow> bool" where
  "isinstance (JStr s) Py_str = True"
| "isinstance (JInt i) Py_int = True"
| "isinstance (JBool b) Py_int = True"
| "isinstance (JFloat r) Py_float = True"
| "isinstance (JBool b) Py_bool = True"
| "isinstance _ _ = False"

definition is_digit :: "char \<Rightarrow> bool" where
  "is_digit c = (c \<in> set ''0123456789'')"

text \<open>
  \<^verbatim>\<open>strptime\<close> turns the format into a regular expression, takes its first match at the start
  of the text and refuses text that the match does not use up. \<open>strptime_directive\<close> lists,
  in the order the expression tries them, what is left of the text after one directive:
  \<^verbatim>\<open>%H\<close> is \<^verbatim>\<open>2[0-3]|[0-1]\d|\d\<close> and \<^verbatim>\<open>%M\<close> is \<^verbatim>\<open>[0-5]\d|\d\<close>. These are the two directives
  of the schemas' formats; no other directive is modelled (it matches nothing), and the
  other characters of these formats, digits and colons, stand for themselves.
\<close>

fun strptime_directive :: "char \<Rightarrow> string \<Rightarrow> string list" where
  "strptime_directive c [] = []"
| "strptime_directive c [a] = (if (c = CHR ''H'' \<or> c = CHR ''M'') \<and> is_digit a then [[]] else [])"
| "strptime_directive c (a # b # r) =
     (if c = CHR ''H'' then
        (if a = CHR ''2'' \<and> b \<in> set ''0123'' then [r] else []) @
        (if a \<in> set ''01'' \<and> is_digit b then [r] else []) @
        (if is_digit a then [b # r] else [])
      else if c = CHR ''M'' then
        (if a \<in> set ''012345'' \<and> is_digit b then [r] else []) @
        (if is_digit a then [b # r] else [])
      else [])"

fun strptime_matches :: "string \<Rightarrow> string \<Rightarrow> string list" where
  "strptime_matches [] s = [s]"
| "strptime_matches [f] s =
     (if f = CHR ''%'' then []
      else (case s of [] \<Rightarrow> [] | x # xs \<Rightarrow> if x = f then [xs] else []))"
| "strptime_matches (f # g # fmt) s =
     (if f = CHR ''%'' then concat (map (strptime_matches fmt) (strptime_directive g s))
      else (case s of [] \<Rightarrow> [] | x # xs \<Rightarrow> if x = f then strptime_matches (g # fmt) xs else []))"

definition strptime_ok :: "string \<Rightarrow> string \<Rightarrow> bool" where
  "strptime_ok fmt s = (case strptime_matches fmt s of [] \<Rightarrow> False | r # _ \<Rightarrow> r = [])"

primrec marker_key :: "marker \<Rightarrow> string" where
  "marker_key (vol_Required k s) = k"
| "marker_key (vol_Optional k s) = k"

primrec is_required :: "marker \<Rightarrow> bool" where
  "is_required (vol_Required k s) = True"
| "is_required (vol_Optional k s) = False"

definition required_present :: "marker list \<Rightarrow> string list \<Rightarrow> bool" where
  "required_present ms ks = list_all (\<lambda>m. if is_required m then marker_key m \<in> set ks else True) ms"

fun validates :: "schema \<Rightarrow> json \<Rightarrow> bool"
  and validates_Any :: "schema list \<Rightarrow> json \<Rightarrow> bool"
  and validates_All :: "schema list \<Rightarrow> json \<Rightarrow> bool"
  and validates_item :: "marker list \<Rightarrow> string \<Rightarrow> json \<Rightarrow> bool"
  and validates_marker :: "marker \<Rightarrow> json \<Rightarrow> bool"
where
  "validates (vol_bool b) d = (num_of d = Some (if b then 1 else 0))"
| "validates (vol_str s) d = (d = JStr s)"
| "validates (vol_type t) d = isinstance d t"
| "validates (vol_Any ss) d = validates_Any ss d"
| "validates (vol_All ss) d = validates_All ss d"
| "validates (vol_Range lo hi) d = (case num_of d of None \<Rightarrow> False | Some x \<Rightarrow> lo \<le> x \<and> x \<le> hi)"
| "validates (vol_Datetime fmt) d = (case d of JStr s \<Rightarrow> strptime_ok fmt s | _ \<Rightarrow> False)"
| "validates (vol_list ss) d = (case d of JList vs \<Rightarrow> list_all (\<lambda>v. validates_Any ss v) vs | _ \<Rightarrow> False)"
| "validates (vol_Schema ms) d =
     (case d of
        JObj kvs \<Rightarrow> list_all (\<lambda>kv. validates_item ms (fst kv) (snd kv)) kvs \<and> required_present ms (map fst kvs)
      | _ \<Rightarrow> False)"
| "validates_Any [] d = False"
| "validates_Any (s # ss) d = (validates s d \<or> validates_Any ss d)"
| "validates_All [] d = True"
| "validates_All (s # ss) d = (validates s d \<and> validates_All ss d)"
| "validates_item [] k v = False"
| "validates_item (m # ms) k v = (if marker_key m = k then validates_marker m v else validates_item ms k v)"
| "validates_marker (vol_Required k s) v = validates s v"
| "validates_marker (vol_Optional k s) v = validates s v"

text \<open>Calling a schema returns the document or raises \<^verbatim>\<open>MultipleInvalid\<close>.\<close>

definition Schema_call :: "schema \<Rightarrow> json \<Rightarrow> exn + json" where
  "Schema_call s d = (if validates s d then Inr d else Inl MultipleInvalid)"

section \<open>The schedule schemas (\<^verbatim>\<open>schema/schedule.py\<close>)\<close>

text \<open>
  Modelled from the spec: the string constants that \<^verbatim>\<open>schema/schedule.py\<close> imports from
  \<^verbatim>\<open>schema/const.py\<close>, a file that is not among the sources. The spec gives the keys of a GET
  schedule as \<^verbatim>\<open>dailySchedules\<close>, \<^verbatim>\<open>dayOfWeek\<close>, \<^verbatim>\<open>switchpoints\<close>, \<^verbatim>\<open>timeOfDay\<close>, \<^verbatim>\<open>heatSetpoint\<close> and
  \<^verbatim>\<open>dhwState\<close>, the hot-water states as On and Off and the days as the names Monday to Sunday.
\<close>

definition SZ_DAILY_SCHEDULES :: string where "SZ_DAILY_SCHEDULES = ''dailySchedules''"
definition SZ_DAY_OF_WEEK :: string where "SZ_DAY_OF_WEEK = ''dayOfWeek''"
definition SZ_DHW_STATE :: string where "SZ_DHW_STATE = ''dhwState''"
definition SZ_HEAT_SETPOINT :: string where "SZ_HEAT_SETPOINT = ''heatSetpoint''"
definition SZ_SWITCHPOINTS :: string where "SZ_SWITCHPOINTS = ''switchpoints''"
definition SZ_TIME_OF_DAY :: string where "SZ_TIME_OF_DAY = ''timeOfDay''"
definition SZ_OFF :: string where "SZ_OFF = ''Off''"
definition SZ_ON :: string where "SZ_ON = ''On''"

definition DAYS_OF_WEEK :: "string list" where
  "DAYS_OF_WEEK = [''Monday'', ''Tuesday'', ''Wednesday'', ''Thursday'', ''Friday'', ''Saturday'', ''Sunday'']"

text \<open>
  The schemas, in the order of the source. \<^verbatim>\<open>vol.Any(list(DAYS_OF_WEEK))\<close> is \<^verbatim>\<open>Any\<close> of one
  validator, the list of the day names: a list schema. The PUT keys are the GET keys sent
  through \<^verbatim>\<open>str.capitalize()\<close>, but for \<^verbatim>\<open>SZ_HEAT_SETPOINT\<close>, which the source leaves as it is
  (\<^verbatim>\<open>NOTE: SZ_HEAT_SETPOINT is not .capitalized()\<close>).
\<close>

definition SCH_GET_SWITCHPOINT_DHW :: schema where
  "SCH_GET_SWITCHPOINT_DHW = vol_Schema
     [vol_Required SZ_DHW_STATE (vol_Any [vol_str SZ_ON, vol_str SZ_OFF]),
      vol_Required SZ_TIME_OF_DAY (vol_Datetime ''%H:%M:00'')]"

definition SCH_GET_SWITCHPOINT_ZONE :: schema where
  "SCH_GET_SWITCHPOINT_ZONE = vol_Schema
     [vol_Required SZ_HEAT_SETPOINT (vol_All [vol_type Py_float, vol_Range 5 35]),
      vol_Required SZ_TIME_OF_DAY (vol_Datetime ''%H:%M:00'')]"

definition SCH_GET_DAY_OF_WEEK_DHW :: schema where
  "SCH_GET_DAY_OF_WEEK_DHW = vol_Schema
     [vol_Required SZ_DAY_OF_WEEK (vol_Any [vol_list (map vol_str DAYS_OF_WEEK)]),
      vol_Required SZ_SWITCHPOINTS (vol_list [SCH_GET_SWITCHPOINT_DHW])]"

definition SCH_GET_DAY_OF_WEEK_ZONE :: schema where
  "SCH_GET_DAY_OF_WEEK_ZONE = vol_Schema
     [vol_Required SZ_DAY_OF_WEEK (vol_Any [vol_list (map vol_str DAYS_OF_WEEK)]),
      vol_Required SZ_SWITCHPOINTS (vol_list [SCH_GET_SWITCHPOINT_ZONE])]"

definition SCH_GET_SCHEDULE_DHW :: schema where
  "SCH_GET_SCHEDULE_DHW = vol_Schema
     [vol_Required SZ_DAILY_SCHEDULES (vol_list [SCH_GET_DAY_OF_WEEK_DHW])]"

definition SCH_GET_SCHEDULE_ZONE :: schema where
  "SCH_GET_SCHEDULE_ZONE = vol_Schema
     [vol_Required SZ_DAILY_SCHEDULES (vol_list [SCH_GET_DAY_OF_WEEK_ZONE])]"

definition SCH_GET_SCHEDULE :: schema where
  "SCH_GET_SCHEDULE = vol_Any [SCH_GET_SCHEDULE_DHW, SCH_GET_SCHEDULE_ZONE]"

definition SCH_PUT_SWITCHPOINT_DHW :: schema where
  "SCH_PUT_SWITCHPOINT_DHW = vol_Schema
     [vol_Required (capitalize SZ_DHW_STATE) (vol_Any [vol_str SZ_ON, vol_str SZ_OFF]),
      vol_Required (capitalize SZ_TIME_OF_DAY) (vol_Datetime ''%H:%M:00'')]"

definition SCH_PUT_SWITCHPOINT_ZONE :: schema where
  "SCH_PUT_SWITCHPOINT_ZONE = vol_Schema
     [vol_Required SZ_HEAT_SETPOINT (vol_All [vol_type Py_float, vol_Range 5 35]),
      vol_Required (capitalize SZ_TIME_OF_DAY) (vol_Datetime ''%H:%M:00'')]"

definition SCH_PUT_DAY_OF_WEEK_DHW :: schema where
  "SCH_PUT_DAY_OF_WEEK_DHW = vol_Schema
     [vol_Required (capitalize SZ_DAY_OF_WEEK) (vol_Any [vol_All [vol_type Py_int, vol_Range 0 6]]),
      vol_Required (capitalize SZ_SWITCHPOINTS) (vol_list [SCH_PUT_SWITCHPOINT_DHW])]"

definition SCH_PUT_DAY_OF_WEEK_ZONE :: schema where
  "SCH_PUT_DAY_OF_WEEK_ZONE = vol_Schema
     [vol_Required (capitalize SZ_DAY_OF_WEEK) (vol_Any [vol_All [vol_type Py_int, vol_Range 0 6]]),
      vol_Required (capitalize SZ_SWITCHPOINTS) (vol_list [SCH_PUT_SWITCHPOINT_ZONE])]"

definition SCH_PUT_SCHEDULE_DHW :: schema where
  "SCH_PUT_SCHEDULE_DHW = vol_Schema
     [vol_Required (capitalize SZ_DAILY_SCHEDULES) (vol_list [SCH_PUT_DAY_OF_WEEK_DHW])]"

definition SCH_PUT_SCHEDULE_ZONE :: schema where
  "SCH_PUT_SCHEDULE_ZONE = vol_Schema
     [vol_Required (capitalize SZ_DAILY_SCHEDULES) (vol_list [SCH_PUT_DAY_OF_WEEK_ZONE])]"

definition SCH_PUT_SCHEDULE :: schema where
  "SCH_PUT_SCHEDULE = vol_Any [SCH_PUT_SCHEDULE_DHW, SCH_PUT_SCHEDULE_ZONE]"

text \<open>
  The keys a document holds, at any depth, and a bound on the keys of a document that a
  schema accepts (used to state which keys a schedule document can carry).
\<close>

fun doc_keys :: "json \<Rightarrow> string set" where
  "doc_keys (JList vs) = (\<Union>v \<in> set vs. doc_keys v)"
| "doc_keys (JObj kvs) = (\<Union>kv \<in> set kvs. insert (fst kv) (doc_keys (snd kv)))"
| "doc_keys _ = {}"

fun schema_keys :: "schema \<Rightarrow> string set"
  and schemas_keys :: "schema list \<Rightarrow> string set"
  and all_keys :: "schema list \<Rightarrow> string set"
  and markers_keys :: "marker list \<Rightarrow> string set"
  and marker_keys :: "marker \<Rightarrow> string set"
where
  "schema_keys (vol_Any ss) = schemas_keys ss"
| "schema_keys (vol_All ss) = all_keys ss"
| "schema_keys (vol_list ss) = schemas_keys ss"
| "schema_keys (vol_Schema ms) = markers_keys ms"
| "schema_keys (vol_bool b) = {}"
| "schema_keys (vol_str s) = {}"
| "schema_keys (vol_type t) = {}"
| "schema_keys (vol_Range lo hi) = {}"
| "schema_keys (vol_Datetime fmt) = {}"
| "schemas_keys [] = {}"
| "schemas_keys (s # ss) = schema_keys s \<union> schemas_keys ss"
| "all_keys [] = UNIV"
| "all_keys (s # ss) = schema_keys s \<inter> all_keys ss"
| "markers_keys [] = {}"
| "markers_keys (m # ms) = marker_keys m \<union> markers_keys ms"
| "marker_keys (vol_Required k s) = insert k (schema_keys s)"
| "marker_keys (vol_Optional k s) = insert k (schema_keys s)"

section \<open>The system-mode capability schemas (\<^verbatim>\<open>schema/config.py\<close>)\<close>

text \<open>
  \<^verbatim>\<open>schema/config.py\<close> imports its key names and the \<^verbatim>\<open>SystemMode\<close> enumeration from
  \<^verbatim>\<open>schema/const.py\<close>, a file that is not among the sources; the schemas take them as a
  parameter. \<^verbatim>\<open>AUTO\<close> stands for \<^verbatim>\<open>str(SystemMode.AUTO)\<close>, and so on. \<^verbatim>\<open>SZ_DURATION\<close> and
  \<^verbatim>\<open>SZ_PERIOD\<close> are defined in \<^verbatim>\<open>config.py\<close> itself.
\<close>

record config_const =
  SZ_SYSTEM_MODE :: string
  SZ_CAN_BE_PERMANENT :: string
  SZ_CAN_BE_TEMPORARY :: string
  SZ_MAX_DURATION :: string
  SZ_TIMING_RESOLUTION :: string
  SZ_TIMING_MODE :: string
  AUTO :: string
  AUTO_WITH_RESET :: string
  HEATING_OFF :: string
  AUTO_WITH_ECO :: string
  AWAY :: string
  CUSTOM :: string
  DAY_OFF :: string

definition SZ_DURATION :: string where "SZ_DURATION = ''Duration''"
definition SZ_PERIOD :: string where "SZ_PERIOD = ''Period''"

definition SCH_SYSTEM_MODE_PERM :: "config_const \<Rightarrow> schema" where
  "SCH_SYSTEM_MODE_PERM c = vol_Schema
     [vol_Required (SZ_SYSTEM_MODE c) (vol_Any [vol_str (AUTO c), vol_str (AUTO_WITH_RESET c), vol_str (HEATING_OFF c)]),
      vol_Required (SZ_CAN_BE_PERMANENT c) (vol_bool True),
      vol_Required (SZ_CAN_BE_TEMPORARY c) (vol_bool False)]"

definition SCH_SYSTEM_MODE_TEMP :: "config_const \<Rightarrow> schema" where
  "SCH_SYSTEM_MODE_TEMP c = vol_Schema
     [vol_Required (SZ_SYSTEM_MODE c)
        (vol_Any [vol_str (AUTO_WITH_ECO c), vol_str (AWAY c), vol_str (CUSTOM c), vol_str (DAY_OFF c)]),
      vol_Required (SZ_CAN_BE_PERMANENT c) (vol_bool True),
      vol_Required (SZ_CAN_BE_TEMPORARY c) (vol_bool True),
      vol_Required (SZ_MAX_DURATION c) (vol_type Py_str),
      vol_Required (SZ_TIMING_RESOLUTION c) (vol_type Py_str),
      vol_Required (SZ_TIMING_MODE c) (vol_Any [vol_str SZ_DURATION, vol_str SZ_PERIOD])]"

definition SCH_ALLOWED_SYSTEM_MODE :: "config_const \<Rightarrow> schema" where
  "SCH_ALLOWED_SYSTEM_MODE c = vol_Any [SCH_SYSTEM_MODE_PERM c, SCH_SYSTEM_MODE_TEMP c]"

text \<open>
  A Python dictionary display keeps one entry for each key, so the schemas above are the
  source's when the key names differ from one another.
\<close>

definition distinct_keys :: "config_const \<Rightarrow> bool" where
  "distinct_keys c = distinct [SZ_SYSTEM_MODE c, SZ_CAN_BE_PERMANENT c, SZ_CAN_BE_TEMPORARY c,
     SZ_MAX_DURATION c, SZ_TIMING_RESOLUTION c, SZ_TIMING_MODE c]"

text \<open>One choice of the names, used to run the schemas on concrete entries.\<close>

definition example_const :: config_const where
  "example_const = \<lparr>SZ_SYSTEM_MODE = ''systemMode'', SZ_CAN_BE_PERMANENT = ''canBePermanent'',
     SZ_CAN_BE_TEMPORARY = ''canBeTemporary'', SZ_MAX_DURATION = ''maxDuration'',
     SZ_TIMING_RESOLUTION = ''timingResolution'', SZ_TIMING_MODE = ''timingMode'',
     AUTO = ''Auto'', AUTO_WITH_RESET = ''AutoWithReset'', HEATING_OFF = ''HeatingOff'',
     AUTO_WITH_ECO = ''AutoWithEco'', AWAY = ''Away'', CUSTOM = ''Custom'', DAY_OFF = ''DayOff''\<rparr>"

section \<open>Dates and \<^verbatim>\<open>strftime\<close>\<close>

text \<open>
  A \<^verbatim>\<open>datetime\<close> value, with the fields that the formats of the sources print. \<open>strftime\<close>
  covers the directives \<^verbatim>\<open>%Y\<close>, \<^verbatim>\<open>%m\<close>, \<^verbatim>\<open>%d\<close>, \<^verbatim>\<open>%H\<close>, \<^verbatim>\<open>%M\<close>, \<^verbatim>\<open>%S\<close> and \<^verbatim>\<open>%%\<close>: decimal numbers
  padded with zeros to four digits for the year and to two digits for the others, as the
  Python documentation gives them (for a year below 1000 the C library decides whether it
  is padded; nothing below depends on it). Any other directive is copied as it stands.
\<close>

record datetime =
  year :: nat
  month :: nat
  day :: nat
  hour :: nat
  minute :: nat
  second :: nat

definition digit_char :: "nat \<Rightarrow> char" where
  "digit_char n = ''0123456789'' ! (n mod 10)"

fun decimal :: "nat \<Rightarrow> string" where
  "decimal n = (if n < 10 then [digit_char n] else decimal (n div 10) @ [digit_char (n mod 10)])"

definition zero_pad :: "nat \<Rightarrow> nat \<Rightarrow> string" where
  "zero_pad w n = replicate (w - length (decimal n)) (CHR ''0'') @ decimal n"

definition strftime_directive :: "datetime \<Rightarrow> char \<Rightarrow> string" where
  "strftime_directive dt c =
     (if c = CHR ''Y'' then zero_pad 4 (year dt)
      else if c = CHR ''m'' then zero_pad 2 (month dt)
      else if c = CHR ''d'' then zero_pad 2 (day dt)
      else if c = CHR ''H'' then zero_pad 2 (hour dt)
      else if c = CHR ''M'' then zero_pad 2 (minute dt)
      else if c = CHR ''S'' then zero_pad 2 (second dt)
      else if c = CHR ''%'' then ''%''
      else [CHR ''%'', c])"

fun strftime :: "datetime \<Rightarrow> string \<Rightarrow> string" where
  "strftime dt [] = []"
| "strftime dt [c] = [c]"
| "strftime dt (f # g # fmt) =
     (if f = CHR ''%'' then strftime_directive dt g @ strftime dt fmt
      else f # strftime dt (g # fmt))"

text \<open>
  \<^verbatim>\<open>x[k]\<close> on a value read from JSON, iteration over it, and \<^verbatim>\<open>str(x)\<close>. \<^verbatim>\<open>str\<close> of a float, a
  list or a dictionary is not modelled.
\<close>

fun subscript :: "json \<Rightarrow> string \<Rightarrow> exn + json" where
  "subscript (JObj kvs) k = dict_get kvs k"
| "subscript (JList xs) k = Inl (TypeError ''list indices must be integers or slices, not str'')"
| "subscript (JStr s) k = Inl (TypeError ''string indices must be integers, not str'')"
| "subscript v k = Inl (TypeError ''object is not subscriptable'')"

fun py_iter :: "json \<Rightarrow> exn + json list" where
  "py_iter (JList xs) = Inr xs"
| "py_iter (JObj kvs) = Inr (map (\<lambda>kv. JStr (fst kv)) kvs)"
| "py_iter (JStr s) = Inr (map (\<lambda>c. JStr [c]) s)"
| "py_iter v = Inl (TypeError ''object is not iterable'')"

fun py_str :: "json \<Rightarrow> string" where
  "py_str (JStr s) = s"
| "py_str (JInt i) = (if i < 0 then CHR ''-'' # decimal (nat (- i)) else decimal (nat i))"
| "py_str (JBool b) = (if b then ''True'' else ''False'')"
| "py_str JNull = ''None''"
| "py_str v = undefined"

section \<open>The control system (\<^verbatim>\<open>evohomeasync2/controlsystem.py\<close>)\<close>

text \<open>
  The attributes that \<^verbatim>\<open>controlsystem.py\<close> reads from a zone and from the hot-water unit.
  Both carry \<^verbatim>\<open>zoneId\<close> and \<^verbatim>\<open>temperatureStatus\<close>; the status attributes are dictionaries that a
  status refresh fills.
\<close>

record entity =
  zoneId :: string
  temperatureStatus :: "(string \<times> json) list"

record Zone = entity +
  name :: string
  setpointStatus :: "(string \<times> json) list"

record HotWater = entity +
  dhwId :: string

text \<open>
  A \<^verbatim>\<open>ControlSystem\<close> object: \<open>attrs\<close> holds the keys of the config that \<^verbatim>\<open>__init__\<close> copies
  into \<^verbatim>\<open>self.__dict__\<close> (all but \<^verbatim>\<open>zones\<close>), \<open>zones_list\<close> is \<^verbatim>\<open>self._zones\<close>, and the other fields
  are the attributes of the same name. The attributes that \<^verbatim>\<open>__init__\<close> assigns by name
  are \<open>instance_attributes\<close>; a config that uses one of them as a key would overwrite
  the attribute, which this record does not represent (the config schema refuses such
  keys).
\<close>

record ControlSystem =
  attrs :: "(string \<times> json) list"
  zones_list :: "Zone list"
  zones :: "(string \<times> Zone) list"
  zones_by_id :: "(string \<times> Zone) list"
  hotwater :: "HotWater option"

definition instance_attributes :: "string list" where
  "instance_attributes = [''client'', ''location'', ''gateway'', ''_zones'', ''zones_by_id'', ''hotwater'']"

text \<open>
  What the control system calls and does not define: the constants \<^verbatim>\<open>URL_BASE\<close> and
  \<^verbatim>\<open>API_STRFTIME\<close> of \<^verbatim>\<open>const.py\<close>, the constructors and \<^verbatim>\<open>set_schedule\<close> of \<^verbatim>\<open>zone.py\<close> and
  \<^verbatim>\<open>hotwater.py\<close>, \<^verbatim>\<open>Location.status\<close>, the client's \<^verbatim>\<open>_headers\<close> and the \<^verbatim>\<open>put\<close> of its session
  (with \<^verbatim>\<open>raise_for_status\<close>), none of them among the sources, and reading a JSON file.
  They are parameters. What touches the network or the disk passes a world \<open>'w\<close> along and
  returns the new one; \<open>set_schedule\<close> is given the schedule whose \<^verbatim>\<open>json.dumps\<close> text the
  source passes.
\<close>

record 'w client =
  URL_BASE :: string
  API_STRFTIME :: string
  headers :: "'w \<Rightarrow> (exn + (string \<times> string) list) \<times> 'w"
  session_put :: "string \<Rightarrow> json \<Rightarrow> (string \<times> string) list \<Rightarrow> 'w \<Rightarrow> (exn + unit) \<times> 'w"
  location_status :: "ControlSystem \<Rightarrow> 'w \<Rightarrow> (exn + ControlSystem) \<times> 'w"
  Zone_init :: "json \<Rightarrow> exn + Zone"
  HotWater_init :: "json \<Rightarrow> exn + HotWater"
  zone_set_schedule :: "Zone \<Rightarrow> json \<Rightarrow> 'w \<Rightarrow> (exn + unit) \<times> 'w"
  hotwater_set_schedule :: "HotWater \<Rightarrow> json \<Rightarrow> 'w \<Rightarrow> (exn + unit) \<times> 'w"
  read_json_file :: "string \<Rightarrow> 'w \<Rightarrow> (exn + json) \<times> 'w"

subsection \<open>\<^verbatim>\<open>__init__\<close>\<close>

fun build_zones :: "(json \<Rightarrow> exn + Zone) \<Rightarrow> json list \<Rightarrow> ControlSystem \<Rightarrow> exn + ControlSystem" where
  "build_zones mk [] self = Inr self"
| "build_zones mk (zone_config # rest) self =
     (case mk zone_config of
        Inl e \<Rightarrow> Inl e
      | Inr zone \<Rightarrow>
          build_zones mk rest
            (self\<lparr>zones_list := zones_list self @ [zone],
                  zones := dict_set (zones self) (name zone) zone,
                  zones_by_id := dict_set (zones_by_id self) (zoneId zone) zone\<rparr>))"

definition ControlSystem_init :: "'w client \<Rightarrow> (string \<times> json) list \<Rightarrow> exn + ControlSystem" where
  "ControlSystem_init client config =
     (let self = \<lparr>attrs = filter (\<lambda>kv. fst kv \<noteq> ''zones'') config,
                  zones_list = [], zones = [], zones_by_id = [], hotwater = None\<rparr>
      in case map_of (attrs self) ''systemId'' of
           None \<Rightarrow> Inl (AttributeError ''systemId'')
         | Some system_id \<Rightarrow>
             if \<not> truthy system_id then Inl (AssertionError ''Invalid config dict'')
             else
               (case dict_get config ''zones'' of
                  Inl e \<Rightarrow> Inl e
                | Inr zs \<Rightarrow>
                    (case py_iter zs of
                       Inl e \<Rightarrow> Inl e
                     | Inr zone_configs \<Rightarrow>
                         (case build_zones (Zone_init client) zone_configs self of
                            Inl e \<Rightarrow> Inl e
                          | Inr self' \<Rightarrow>
                              (case map_of config ''dhw'' of
                                 None \<Rightarrow> Inr self'
                               | Some dhw_config \<Rightarrow>
                                   if truthy dhw_config then
                                     (case HotWater_init client dhw_config of
                                        Inl e \<Rightarrow> Inl e
                                      | Inr hw \<Rightarrow> Inr (self'\<lparr>hotwater := Some hw\<rparr>))
                                   else Inr self')))))"

subsection \<open>\<^verbatim>\<open>_set_status\<close> and the operations that call it\<close>

text \<open>
  The request body (\<open>data\<close>) and what \<^verbatim>\<open>_set_status\<close> does with it. The first headers, with
  their content type, are computed and not used, as in the source; the request is sent
  with the headers of a second call.
\<close>

definition set_status_data :: "string \<Rightarrow> string \<Rightarrow> datetime option \<Rightarrow> (string \<times> json) list" where
  "set_status_data api_strftime mode until =
     (case until of
        None \<Rightarrow> [(''SystemMode'', JStr mode), (''TimeUntil'', JNull), (''Permanent'', JBool True)]
      | Some u \<Rightarrow> [(''SystemMode'', JStr mode), (''TimeUntil'', JStr (strftime u api_strftime)),
                   (''Permanent'', JBool False)])"

definition ControlSystem__set_status ::
    "'w client \<Rightarrow> ControlSystem \<Rightarrow> string \<Rightarrow> datetime option \<Rightarrow> 'w \<Rightarrow> (exn + unit) \<times> 'w" where
  "ControlSystem__set_status client self mode until w =
     (case headers client w of
        (Inl e, w1) \<Rightarrow> (Inl e, w1)
      | (Inr h, w1) \<Rightarrow>
          (let headers' = dict_set h ''Content-Type'' ''application/json'';
               data = JObj (set_status_data (API_STRFTIME client) mode until)
           in case map_of (attrs self) ''systemId'' of
                None \<Rightarrow> (Inl (AttributeError ''systemId''), w1)
              | Some system_id \<Rightarrow>
                  (let url = URL_BASE client @ ''/temperatureControlSystem/'' @ py_str system_id @ ''/mode''
                   in case headers client w1 of
                        (Inl e, w2) \<Rightarrow> (Inl e, w2)
                      | (Inr h2, w2) \<Rightarrow> session_put client url data h2 w2)))"

definition ControlSystem_set_status ::
    "'w client \<Rightarrow> ControlSystem \<Rightarrow> string \<Rightarrow> datetime option \<Rightarrow> 'w \<Rightarrow> (exn + unit) \<times> 'w" where
  "ControlSystem_set_status client self mode until = ControlSystem__set_status client self mode until"

definition set_status_normal :: "'w client \<Rightarrow> ControlSystem \<Rightarrow> 'w \<Rightarrow> (exn + unit) \<times> 'w" where
  "set_status_normal client self = ControlSystem__set_status client self ''Auto'' None"

definition set_status_reset :: "'w client \<Rightarrow> ControlSystem \<Rightarrow> 'w \<Rightarrow> (exn + unit) \<times> 'w" where
  "set_status_reset client self = ControlSystem__set_status client self ''AutoWithReset'' None"

definition set_status_custom :: "'w client \<Rightarrow> ControlSystem \<Rightarrow> datetime option \<Rightarrow> 'w \<Rightarrow> (exn + unit) \<times> 'w" where
  "set_status_custom client self until = ControlSystem__set_status client self ''Custom'' until"

definition set_status_eco :: "'w client \<Rightarrow> ControlSystem \<Rightarrow> datetime option \<Rightarrow> 'w \<Rightarrow> (exn + unit) \<times> 'w" where
  "set_status_eco client self until = ControlSystem__set_status client self ''AutoWithEco'' until"

definition set_status_away :: "'w client \<Rightarrow> ControlSystem \<Rightarrow> datetime option \<Rightarrow> 'w \<Rightarrow> (exn + unit) \<times> 'w" where
  "set_status_away client self until = ControlSystem__set_status client self ''Away'' until"

definition set_status_dayoff :: "'w client \<Rightarrow> ControlSystem \<Rightarrow> datetime option \<Rightarrow> 'w \<Rightarrow> (exn + unit) \<times> 'w" where
  "set_status_dayoff client self until = ControlSystem__set_status client self ''DayOff'' until"

definition set_status_heatingoff :: "'w client \<Rightarrow> ControlSystem \<Rightarrow> datetime option \<Rightarrow> 'w \<Rightarrow> (exn + unit) \<times> 'w" where
  "set_status_heatingoff client self until = ControlSystem__set_status client self ''HeatingOff'' until"

subsection \<open>\<^verbatim>\<open>temperatures\<close>\<close>

definition dhw_status :: "HotWater \<Rightarrow> exn + json" where
  "dhw_status hw =
     (case dict_get (temperatureStatus hw) ''temperature'' of
        Inl e \<Rightarrow> Inl e
      | Inr t \<Rightarrow> Inr (JObj [(''thermostat'', JStr ''DOMESTIC_HOT_WATER''), (''id'', JStr (dhwId hw)),
                             (''name'', JStr []), (''temp'', t), (''setpoint'', JStr [])]))"

definition zone_status :: "Zone \<Rightarrow> exn + json" where
  "zone_status zone =
     (case dict_get (setpointStatus zone) ''targetHeatTemperature'' of
        Inl e \<Rightarrow> Inl e
      | Inr setpoint \<Rightarrow>
          (let status = [(''thermostat'', JStr ''EMEA_ZONE''), (''id'', JStr (zoneId zone)),
                         (''name'', JStr (name zone)), (''temp'', JNull), (''setpoint'', setpoint)]
           in case dict_get (temperatureStatus zone) ''isAvailable'' of
                Inl e \<Rightarrow> Inl e
              | Inr available \<Rightarrow>
                  if truthy available then
                    (case dict_get (temperatureStatus zone) ''temperature'' of
                       Inl e \<Rightarrow> Inl e
                     | Inr t \<Rightarrow> Inr (JObj (dict_set status ''temp'' t)))
                  else Inr (JObj status)))"

fun zone_statuses :: "Zone list \<Rightarrow> exn + json list" where
  "zone_statuses [] = Inr []"
| "zone_statuses (zone # rest) =
     (case zone_status zone of
        Inl e \<Rightarrow> Inl e
      | Inr s \<Rightarrow> (case zone_statuses rest of Inl e \<Rightarrow> Inl e | Inr r \<Rightarrow> Inr (s # r)))"

definition temperatures :: "'w client \<Rightarrow> ControlSystem \<Rightarrow> 'w \<Rightarrow> (exn + json list) \<times> 'w" where
  "temperatures client self w =
     (case location_status client self w of
        (Inl e, w') \<Rightarrow> (Inl e, w')
      | (Inr self', w') \<Rightarrow>
          (case (case hotwater self' of
                   None \<Rightarrow> Inr []
                 | Some hw \<Rightarrow> (case dhw_status hw of Inl e \<Rightarrow> Inl e | Inr s \<Rightarrow> Inr [s])) of
             Inl e \<Rightarrow> (Inl e, w')
           | Inr result \<Rightarrow>
               (case zone_statuses (zones_list self') of
                  Inl e \<Rightarrow> (Inl e, w')
                | Inr r \<Rightarrow> (Inr (result @ r), w'))))"

subsection \<open>\<^verbatim>\<open>zone_schedules_restore\<close>\<close>

definition is_hotwater :: "ControlSystem \<Rightarrow> string \<Rightarrow> bool" where
  "is_hotwater self zone_id = (case hotwater self of None \<Rightarrow> False | Some hw \<Rightarrow> zoneId hw = zone_id)"

definition restore_entry ::
    "'w client \<Rightarrow> ControlSystem \<Rightarrow> string \<Rightarrow> json \<Rightarrow> 'w \<Rightarrow> (exn + unit) \<times> 'w" where
  "restore_entry client self zone_id zone_schedule w =
     (case subscript zone_schedule ''name'' of
        Inl e \<Rightarrow> (Inl e, w)
      | Inr name' \<Rightarrow>
          (case subscript zone_schedule ''schedule'' of
             Inl e \<Rightarrow> (Inl e, w)
           | Inr zone_info \<Rightarrow>
               (case hotwater self of
                  Some hw \<Rightarrow>
                    if zoneId hw = zone_id then hotwater_set_schedule client hw zone_info w
                    else (case dict_get (zones_by_id self) zone_id of
                            Inl e \<Rightarrow> (Inl e, w)
                          | Inr zone \<Rightarrow> zone_set_schedule client zone zone_info w)
                | None \<Rightarrow>
                    (case dict_get (zones_by_id self) zone_id of
                       Inl e \<Rightarrow> (Inl e, w)
                     | Inr zone \<Rightarrow> zone_set_schedule client zone zone_info w))))"

fun restore_entries ::
    "'w client \<Rightarrow> ControlSystem \<Rightarrow> (string \<times> json) list \<Rightarrow> 'w \<Rightarrow> (exn + unit) \<times> 'w" where
  "restore_entries client self [] w = (Inr (), w)"
| "restore_entries client self ((zone_id, zone_schedule) # rest) w =
     (case restore_entry client self zone_id zone_schedule w of
        (Inl e, w') \<Rightarrow> (Inl e, w')
      | (Inr u, w') \<Rightarrow> restore_entries client self rest w')"

definition zone_schedules_restore ::
    "'w client \<Rightarrow> ControlSystem \<Rightarrow> string \<Rightarrow> 'w \<Rightarrow> (exn + unit) \<times> 'w" where
  "zone_schedules_restore client self filename w =
     (case read_json_file client filename w of
        (Inl e, w') \<Rightarrow> (Inl e, w')
      | (Inr schedules, w') \<Rightarrow>
          (case schedules of
             JObj items \<Rightarrow> restore_entries client self items w'
           | _ \<Rightarrow> (Inl (AttributeError ''items''), w')))"

subsection \<open>A client to run the operations on\<close>

text \<open>
  A client whose world is the list of the requests sent so far: \<open>Sent url body\<close> for a
  \<^verbatim>\<open>put\<close>, \<open>Scheduled id schedule\<close> for a \<^verbatim>\<open>set_schedule\<close>. Its headers are empty, its requests
  succeed, its constructors read \<^verbatim>\<open>zoneId\<close>, \<^verbatim>\<open>name\<close> and \<^verbatim>\<open>dhwId\<close> from the config, its status
  refresh gives every zone the temperature 19.5 and the target 21.0 (the zone called
  \<^verbatim>\<open>Bedroom\<close> reports no temperature) and the hot water the temperature 50.0, and every file
  holds the backup \<open>example_backup\<close>.
\<close>

datatype request = Sent string json | Scheduled string json

definition example_backup :: json where
  "example_backup = JObj
     [(''3432522'', JObj [(''name'', JStr ''Lounge''), (''schedule'', JObj [(''dailySchedules'', JList [])])]),
      (''9999999'', JObj [(''name'', JStr ''Attic''), (''schedule'', JObj [(''dailySchedules'', JList [])])]),
      (''3432521'', JObj [(''name'', JStr ''Bedroom''), (''schedule'', JObj [(''dailySchedules'', JList [])])])]"

definition example_Zone_init :: "json \<Rightarrow> exn + Zone" where
  "example_Zone_init config =
     (case (subscript config ''zoneId'', subscript config ''name'') of
        (Inr (JStr i), Inr (JStr n)) \<Rightarrow>
          Inr \<lparr>zoneId = i, temperatureStatus = [], name = n, setpointStatus = []\<rparr>
      | _ \<Rightarrow> Inl (AssertionError ''Invalid config dict''))"

definition example_HotWater_init :: "json \<Rightarrow> exn + HotWater" where
  "example_HotWater_init config =
     (case subscript config ''dhwId'' of
        Inr (JStr i) \<Rightarrow> Inr \<lparr>zoneId = i, temperatureStatus = [], dhwId = i\<rparr>
      | _ \<Rightarrow> Inl (AssertionError ''Invalid config dict''))"

definition example_refresh_zone :: "Zone \<Rightarrow> Zone" where
  "example_refresh_zone z = z\<lparr>
     temperatureStatus :=
       (if name z = ''Bedroom'' then [(''isAvailable'', JBool False)]
        else [(''temperature'', JFloat 19.5), (''isAvailable'', JBool True)]),
     setpointStatus := [(''targetHeatTemperature'', JFloat 21), (''setpointMode'', JStr ''FollowSchedule'')]\<rparr>"

definition example_refresh :: "ControlSystem \<Rightarrow> ControlSystem" where
  "example_refresh self = self\<lparr>
     zones_list := map example_refresh_zone (zones_list self),
     zones := map (\<lambda>kz. (fst kz, example_refresh_zone (snd kz))) (zones self),
     zones_by_id := map (\<lambda>kz. (fst kz, example_refresh_zone (snd kz))) (zones_by_id self),
     hotwater := map_option (\<lambda>hw. hw\<lparr>temperatureStatus := [(''temperature'', JFloat 50), (''isAvailable'', JBool True)]\<rparr>)
       (hotwater self)\<rparr>"

definition example_client :: "request list client" where
  "example_client = \<lparr>
     URL_BASE = ''https://example.test/WebAPI/emea/api/v1'',
     API_STRFTIME = ''%Y-%m-%dT%H:%M:%SZ'',
     headers = (\<lambda>w. (Inr [], w)),
     session_put = (\<lambda>url data h w. (Inr (), w @ [Sent url data])),
     location_status = (\<lambda>self w. (Inr (example_refresh self), w)),
     Zone_init = example_Zone_init,
     HotWater_init = example_HotWater_init,
     zone_set_schedule = (\<lambda>zone schedule w. (Inr (), w @ [Scheduled (zoneId zone) schedule])),
     hotwater_set_schedule = (\<lambda>hw schedule w. (Inr (), w @ [Scheduled (zoneId hw) schedule])),
     read_json_file = (\<lambda>filename w. (Inr example_backup, w))\<rparr>"

definition example_config :: "(string \<times> json) list" where
  "example_config =
     [(''systemId'', JStr ''3432579''),
      (''modelType'', JStr ''EvoTouch''),
      (''zones'', JList [JObj [(''zoneId'', JStr ''3432522''), (''name'', JStr ''Lounge'')],
                         JObj [(''zoneId'', JStr ''3432521''), (''name'', JStr ''Bedroom'')]]),
      (''dhw'', JObj [(''dhwId'', JStr ''3933910'')])]"

definition example_tcs :: ControlSystem where
  "example_tcs = \<lparr>
     attrs = [(''systemId'', JStr ''3432579''), (''modelType'', JStr ''EvoTouch''),
              (''dhw'', JObj [(''dhwId'', JStr ''3933910'')])],
     zones_list = [\<lparr>zoneId = ''3432522'', temperatureStatus = [], name = ''Lounge'', setpointStatus = []\<rparr>,
                   \<lparr>zoneId = ''3432521'', temperatureStatus = [], name = ''Bedroom'', setpointStatus = []\<rparr>],
     zones = [(''Lounge'', \<lparr>zoneId = ''3432522'', temperatureStatus = [], name = ''Lounge'', setpointStatus = []\<rparr>),
              (''Bedroom'', \<lparr>zoneId = ''3432521'', temperatureStatus = [], name = ''Bedroom'', setpointStatus = []\<rparr>)],
     zones_by_id = [(''3432522'', \<lparr>zoneId = ''3432522'', temperatureStatus = [], name = ''Lounge'', setpointStatus = []\<rparr>),
                    (''3432521'', \<lparr>zoneId = ''3432521'', temperatureStatus = [], name = ''Bedroom'', setpointStatus = []\<rparr>)],
     hotwater = Some \<lparr>zoneId = ''3933910'', temperatureStatus = [], dhwId = ''3933910''\<rparr>\<rparr>"

section \<open>The legacy client (\<^verbatim>\<open>evohomeclient/__init__.py\<close>)\<close>

text \<open>
  What the legacy client gets from outside, as parameters:
  \<^item> \<open>populate_full_data\<close>: what \<^verbatim>\<open>self._populate_full_data()\<close> does at the start of a write:
    it raises, or it leaves \<^verbatim>\<open>self.location_id\<close>;
  \<^item> \<open>requests_put url data\<close>: \<^verbatim>\<open>requests.put\<close> and \<^verbatim>\<open>raise_for_status\<close>: it raises, or it gives
    the content of the response as \<^verbatim>\<open>_convert\<close> reads it;
  \<^item> \<open>requests_get url n\<close>: the same for the \<open>n\<close>-th \<^verbatim>\<open>requests.get\<close> of an address (counted
    from 0): the server's answer may change from one request to the next;
  \<^item> \<open>get_device_id zone\<close> and \<open>get_dhw_zone\<close>: \<^verbatim>\<open>self._get_device_id(zone)\<close> and
    \<^verbatim>\<open>self._get_dhw_zone()\<close>, which read the device table.
  A write returns \<open>None\<close> when it never returns, and otherwise its outcome, the number of
  status checks it made and the seconds it slept.
\<close>

record legacy =
  hostname :: string
  populate_full_data :: "exn + json"
  requests_put :: "string \<Rightarrow> json \<Rightarrow> exn + json"
  requests_get :: "string \<Rightarrow> nat \<Rightarrow> exn + json"
  get_device_id :: "json \<Rightarrow> exn + json"
  get_dhw_zone :: json

text \<open>
  \<^verbatim>\<open>_get_task_status\<close>, for the \<open>n\<close>-th check of a task. Its call of \<^verbatim>\<open>_populate_full_data\<close>
  returns at once, the data being there since the write began.
\<close>

definition EvohomeClient__get_task_status :: "legacy \<Rightarrow> json \<Rightarrow> nat \<Rightarrow> exn + json" where
  "EvohomeClient__get_task_status self task_id n =
     (let url = hostname self @ ''/WebAPI/api/commTasks?commTaskId='' @ py_str task_id
      in case requests_get self url n of
           Inl e \<Rightarrow> Inl e
         | Inr content \<Rightarrow> subscript content ''state'')"

definition EvohomeClient__get_task_id :: "json \<Rightarrow> exn + json" where
  "EvohomeClient__get_task_id ret =
     (case ret of
        JList [] \<Rightarrow> Inl (IndexError ''list index out of range'')
      | JList (first # rest) \<Rightarrow> subscript first ''id''
      | _ \<Rightarrow> subscript ret ''id'')"

text \<open>
  The loop that ends each write:
  \<^verbatim>\<open>while self._get_task_status(task_id) != 'Succeeded': time.sleep(1)\<close>.
  \<open>checks\<close> counts the status checks made so far and \<open>slept\<close> the seconds slept.
\<close>

partial_function (option) wait_for_task ::
    "legacy \<Rightarrow> json \<Rightarrow> nat \<Rightarrow> nat \<Rightarrow> ((exn + unit) \<times> nat \<times> nat) option" where
  "wait_for_task self task_id checks slept =
     (case EvohomeClient__get_task_status self task_id checks of
        Inl e \<Rightarrow> Some (Inl e, Suc checks, slept)
      | Inr state \<Rightarrow>
          if state \<noteq> JStr ''Succeeded'' then wait_for_task self task_id (Suc checks) (slept + 1)
          else Some (Inr (), Suc checks, slept))"

text \<open>
  The three writes end alike: the \<^verbatim>\<open>put\<close> with \<^verbatim>\<open>raise_for_status\<close>, \<^verbatim>\<open>_get_task_id\<close> and the loop.
  The source writes these lines out in each of them; \<open>put_and_wait\<close> is that common end.
\<close>

definition put_and_wait :: "legacy \<Rightarrow> string \<Rightarrow> json \<Rightarrow> ((exn + unit) \<times> nat \<times> nat) option" where
  "put_and_wait self url data =
     (case requests_put self url data of
        Inl e \<Rightarrow> Some (Inl e, 0, 0)
      | Inr response \<Rightarrow>
          (case EvohomeClient__get_task_id response of
             Inl e \<Rightarrow> Some (Inl e, 0, 0)
           | Inr task_id \<Rightarrow> wait_for_task self task_id 0 0))"

definition quick_action_data :: "string \<Rightarrow> datetime option \<Rightarrow> json" where
  "quick_action_data status until =
     (case until of
        None \<Rightarrow> JObj [(''QuickAction'', JStr status), (''QuickActionNextTime'', JNull)]
      | Some u \<Rightarrow> JObj [(''QuickAction'', JStr status),
                        (''QuickActionNextTime'', JStr (strftime u ''%Y-%m-%d'' @ ''T00:00:00Z''))])"

definition EvohomeClient__set_status ::
    "legacy \<Rightarrow> string \<Rightarrow> datetime option \<Rightarrow> ((exn + unit) \<times> nat \<times> nat) option" where
  "EvohomeClient__set_status self status until =
     (case populate_full_data self of
        Inl e \<Rightarrow> Some (Inl e, 0, 0)
      | Inr location_id \<Rightarrow>
          put_and_wait self
            (hostname self @ ''/WebAPI/api/evoTouchSystems?locationId='' @ py_str location_id)
            (quick_action_data status until))"

definition EvohomeClient__set_heat_setpoint ::
    "legacy \<Rightarrow> json \<Rightarrow> json \<Rightarrow> ((exn + unit) \<times> nat \<times> nat) option" where
  "EvohomeClient__set_heat_setpoint self zone data =
     (case populate_full_data self of
        Inl e \<Rightarrow> Some (Inl e, 0, 0)
      | Inr location_id \<Rightarrow>
          (case get_device_id self zone of
             Inl e \<Rightarrow> Some (Inl e, 0, 0)
           | Inr device_id \<Rightarrow>
               put_and_wait self
                 (hostname self @ ''/WebAPI/api/devices/'' @ py_str device_id
                    @ ''/thermostat/changeableValues/heatSetpoint'')
                 data))"

definition set_temperature_data :: "json \<Rightarrow> datetime option \<Rightarrow> json" where
  "set_temperature_data temperature until =
     (case until of
        None \<Rightarrow> JObj [(''Value'', temperature), (''Status'', JStr ''Hold''), (''NextTime'', JNull)]
      | Some u \<Rightarrow> JObj [(''Value'', temperature), (''Status'', JStr ''Temporary''),
                        (''NextTime'', JStr (strftime u ''%Y-%m-%dT%H:%M:%SZ''))])"

definition set_temperature ::
    "legacy \<Rightarrow> json \<Rightarrow> json \<Rightarrow> datetime option \<Rightarrow> ((exn + unit) \<times> nat \<times> nat) option" where
  "set_temperature self zone temperature until =
     EvohomeClient__set_heat_setpoint self zone (set_temperature_data temperature until)"

definition cancel_temp_override :: "legacy \<Rightarrow> json \<Rightarrow> ((exn + unit) \<times> nat \<times> nat) option" where
  "cancel_temp_override self zone =
     EvohomeClient__set_heat_setpoint self zone
       (JObj [(''Value'', JNull), (''Status'', JStr ''Scheduled''), (''NextTime'', JNull)])"

definition set_dhw_data :: "json \<Rightarrow> json \<Rightarrow> json \<Rightarrow> json" where
  "set_dhw_data status mode next_time =
     JObj [(''Status'', status), (''Mode'', mode), (''NextTime'', next_time), (''SpecialModes'', JNull),
           (''HeatSetpoint'', JNull), (''CoolSetpoint'', JNull)]"

definition EvohomeClient__set_dhw ::
    "legacy \<Rightarrow> json \<Rightarrow> json \<Rightarrow> json \<Rightarrow> ((exn + unit) \<times> nat \<times> nat) option" where
  "EvohomeClient__set_dhw self status mode next_time =
     (let data = set_dhw_data status mode next_time
      in case populate_full_data self of
           Inl e \<Rightarrow> Some (Inl e, 0, 0)
         | Inr location_id \<Rightarrow>
             put_and_wait self
               (hostname self @ ''/WebAPI/api/devices/'' @ py_str (get_dhw_zone self)
                  @ ''/thermostat/changeableValues'')
               data)"

definition dhw_time_until :: "datetime option \<Rightarrow> json" where
  "dhw_time_until until =
     (case until of None \<Rightarrow> JNull | Some u \<Rightarrow> JStr (strftime u ''%Y-%m-%dT%H:%M:%SZ''))"

definition set_dhw_on :: "legacy \<Rightarrow> datetime option \<Rightarrow> ((exn + unit) \<times> nat \<times> nat) option" where
  "set_dhw_on self until =
     EvohomeClient__set_dhw self (JStr ''Hold'') (JStr ''DHWOn'') (dhw_time_until until)"

definition set_dhw_off :: "legacy \<Rightarrow> datetime option \<Rightarrow> ((exn + unit) \<times> nat \<times> nat) option" where
  "set_dhw_off self until =
     EvohomeClient__set_dhw self (JStr ''Hold'') (JStr ''DHWOff'') (dhw_time_until until)"

definition set_dhw_auto :: "legacy \<Rightarrow> ((exn + unit) \<times> nat \<times> nat) option" where
  "set_dhw_auto self = EvohomeClient__set_dhw self (JStr ''Scheduled'') JNull JNull"

text \<open>A status check that neither raised nor reported \<^verbatim>\<open>Succeeded\<close>: the loop goes on.\<close>

definition pending :: "exn + json \<Rightarrow> bool" where
  "pending r = (case r of Inl e \<Rightarrow> False | Inr state \<Rightarrow> state \<noteq> JStr ''Succeeded'')"

text \<open>
  Two servers to run the writes on. Both accept every \<^verbatim>\<open>put\<close> and answer it with the task 7.
  The first reports the task as \<^verbatim>\<open>Running\<close> twice and as \<^verbatim>\<open>Succeeded\<close> from the third check on;
  the second reports \<^verbatim>\<open>Running\<close> for ever.
\<close>

definition example_legacy :: legacy where
  "example_legacy = \<lparr>
     hostname = ''https://example.test'',
     populate_full_data = Inr (JInt 12345),
     requests_put = (\<lambda>url data. Inr (JList [JObj [(''id'', JInt 7)]])),
     requests_get = (\<lambda>url n. Inr (JObj [(''state'', JStr (if n < 2 then ''Running'' else ''Succeeded''))])),
     get_device_id = (\<lambda>zone. Inr (JInt 3432522)),
     get_dhw_zone = JInt 3933910\<rparr>"

definition stuck_legacy :: legacy where
  "stuck_legacy = example_legacy\<lparr>requests_get := (\<lambda>url n. Inr (JObj [(''state'', JStr ''Running'')]))\<rparr>"

chapter \<open>Properties\<close>

section \<open>Properties of the schedule schemas\<close>

subsection \<open>Dictionary schemas\<close>

lemma validates_pair_schema:
  assumes "k1 \<noteq> k2"
  shows "validates (vol_Schema [vol_Required k1 s1, vol_Required k2 s2]) (JObj kvs) =
     ((\<forall>kv \<in> set kvs. (fst kv = k1 \<and> validates s1 (snd kv)) \<or> (fst kv = k2 \<and> validates s2 (snd kv)))
      \<and> k1 \<in> fst ` set kvs \<and> k2 \<in> fst ` set kvs)"
proof -
  have item: "validates_item [vol_Required k1 s1, vol_Required k2 s2] k v =
      ((k = k1 \<and> validates s1 v) \<or> (k = k2 \<and> validates s2 v))" for k v
    using assms by auto
  show ?thesis
    by (simp add: required_present_def list_all_iff item del: validates_item.simps)
qed

text \<open>
  A dictionary with exactly the two keys of a two-key schema, the second value valid, is
  accepted exactly when the first value is.
\<close>

lemma two_key_document:
  assumes k: "k1 \<noteq> k2"
    and d: "distinct (map fst kvs)"
    and keys: "set (map fst kvs) = {k1, k2}"
    and sp: "map_of kvs k1 = Some sp"
    and tv: "map_of kvs k2 = Some tv"
    and ok: "validates s2 tv"
  shows "validates (vol_Schema [vol_Required k1 s1, vol_Required k2 s2]) (JObj kvs) = validates s1 sp"
proof -
  have in1: "(k1, v) \<in> set kvs \<longleftrightarrow> v = sp" for v
    using map_of_eq_Some_iff [OF d, of k1 v] sp by auto
  have in2: "(k2, v) \<in> set kvs \<longleftrightarrow> v = tv" for v
    using map_of_eq_Some_iff [OF d, of k2 v] tv by auto
  have mem: "k1 \<in> fst ` set kvs" "k2 \<in> fst ` set kvs"
    using keys by auto
  have all: "fst kv = k1 \<or> fst kv = k2" if "kv \<in> set kvs" for kv
    using keys that by auto
  have "(\<forall>kv \<in> set kvs. (fst kv = k1 \<and> validates s1 (snd kv)) \<or> (fst kv = k2 \<and> validates s2 (snd kv)))
     = validates s1 sp"
  proof
    assume a: "\<forall>kv \<in> set kvs. (fst kv = k1 \<and> validates s1 (snd kv)) \<or> (fst kv = k2 \<and> validates s2 (snd kv))"
    have "(k1, sp) \<in> set kvs" using in1 by simp
    with a have "(fst (k1, sp) = k1 \<and> validates s1 (snd (k1, sp))) \<or> (fst (k1, sp) = k2 \<and> validates s2 (snd (k1, sp)))"
      by (rule bspec)
    with k show "validates s1 sp" by simp
  next
    assume b: "validates s1 sp"
    show "\<forall>kv \<in> set kvs. (fst kv = k1 \<and> validates s1 (snd kv)) \<or> (fst kv = k2 \<and> validates s2 (snd kv))"
    proof
      fix kv assume m: "kv \<in> set kvs"
      obtain a v where kv: "kv = (a, v)" by (cases kv)
      from all [OF m] kv have "a = k1 \<or> a = k2" by simp
      then show "(fst kv = k1 \<and> validates s1 (snd kv)) \<or> (fst kv = k2 \<and> validates s2 (snd kv))"
        using m kv in1 in2 b ok by auto
    qed
  qed
  then show ?thesis
    unfolding validates_pair_schema [OF k] using mem by simp
qed

lemma setpoint_validator:
  "validates (vol_All [vol_type Py_float, vol_Range 5 35]) sp = (\<exists>v. sp = JFloat v \<and> 5 \<le> v \<and> v \<le> 35)"
  by (cases sp) auto

lemma capitalize_keys:
  "capitalize SZ_DAILY_SCHEDULES = ''Dailyschedules''"
  "capitalize SZ_DAY_OF_WEEK = ''Dayofweek''"
  "capitalize SZ_SWITCHPOINTS = ''Switchpoints''"
  "capitalize SZ_TIME_OF_DAY = ''Timeofday''"
  "capitalize SZ_DHW_STATE = ''Dhwstate''"
  by (simp_all add: capitalize_def to_upper_def to_lower_def
    SZ_DAILY_SCHEDULES_def SZ_DAY_OF_WEEK_def SZ_DHW_STATE_def SZ_SWITCHPOINTS_def SZ_TIME_OF_DAY_def)

subsection \<open>The setpoint range of a zone switchpoint\<close>

text \<open>
  C6, as the code has it. A zone switchpoint document with a valid time of day is accepted
  by the GET schema, and by the PUT schema, exactly when its setpoint is a float \<open>v\<close> with
  \<open>5 \<le> v \<le> 35\<close>: outside the interval it is refused, inside it and at both bounds it is
  accepted, and a setpoint that is not a float is refused whatever its value
  (\<^verbatim>\<open>vol.All(float, vol.Range(min=5, max=35))\<close> checks the type first). \<open>g\<close> is the GET
  document, \<open>p\<close> the PUT document, \<open>sp\<close> the setpoint and \<open>t\<close> the time of day.
\<close>

theorem switchpoint_zone_setpoint_range:
  assumes "distinct (map fst g)"
    and "set (map fst g) = {SZ_HEAT_SETPOINT, SZ_TIME_OF_DAY}"
    and "map_of g SZ_HEAT_SETPOINT = Some sp"
    and "map_of g SZ_TIME_OF_DAY = Some (JStr t)"
    and "distinct (map fst p)"
    and "set (map fst p) = {SZ_HEAT_SETPOINT, capitalize SZ_TIME_OF_DAY}"
    and "map_of p SZ_HEAT_SETPOINT = Some sp"
    and "map_of p (capitalize SZ_TIME_OF_DAY) = Some (JStr t)"
    and "strptime_ok ''%H:%M:00'' t"
  shows "validates SCH_GET_SWITCHPOINT_ZONE (JObj g) = (\<exists>v. sp = JFloat v \<and> 5 \<le> v \<and> v \<le> 35)
       \<and> validates SCH_PUT_SWITCHPOINT_ZONE (JObj p) = (\<exists>v. sp = JFloat v \<and> 5 \<le> v \<and> v \<le> 35)"
proof -
  have ne: "SZ_HEAT_SETPOINT \<noteq> SZ_TIME_OF_DAY" "SZ_HEAT_SETPOINT \<noteq> capitalize SZ_TIME_OF_DAY"
    by (simp_all add: capitalize_keys) (simp_all add: SZ_HEAT_SETPOINT_def SZ_TIME_OF_DAY_def)
  have t: "validates (vol_Datetime ''%H:%M:00'') (JStr t)"
    using assms(9) by simp
  have "validates SCH_GET_SWITCHPOINT_ZONE (JObj g) = validates (vol_All [vol_type Py_float, vol_Range 5 35]) sp"
    unfolding SCH_GET_SWITCHPOINT_ZONE_def
    by (rule two_key_document [OF ne(1) assms(1-4) t])
  moreover have "validates SCH_PUT_SWITCHPOINT_ZONE (JObj p) = validates (vol_All [vol_type Py_float, vol_Range 5 35]) sp"
    unfolding SCH_PUT_SWITCHPOINT_ZONE_def
    by (rule two_key_document [OF ne(2) assms(5-8) t])
  ultimately show ?thesis
    by (simp only: setpoint_validator)
qed

text \<open>
  The theorem at both bounds and beyond them, for the GET document
  \<^verbatim>\<open>{"heatSetpoint": v, "timeOfDay": "06:30:00"}\<close> and the PUT document
  \<^verbatim>\<open>{"heatSetpoint": v, "Timeofday": "06:30:00"}\<close>.
\<close>

theorem switchpoint_zone_setpoint_range_witness:
  "validates SCH_GET_SWITCHPOINT_ZONE (JObj [(''heatSetpoint'', JFloat 5), (''timeOfDay'', JStr ''06:30:00'')])
   \<and> validates SCH_PUT_SWITCHPOINT_ZONE (JObj [(''heatSetpoint'', JFloat 5), (''Timeofday'', JStr ''06:30:00'')])
   \<and> validates SCH_GET_SWITCHPOINT_ZONE (JObj [(''heatSetpoint'', JFloat 35), (''timeOfDay'', JStr ''06:30:00'')])
   \<and> validates SCH_PUT_SWITCHPOINT_ZONE (JObj [(''heatSetpoint'', JFloat 35), (''Timeofday'', JStr ''06:30:00'')])
   \<and> \<not> validates SCH_GET_SWITCHPOINT_ZONE (JObj [(''heatSetpoint'', JFloat 35.5), (''timeOfDay'', JStr ''06:30:00'')])
   \<and> \<not> validates SCH_PUT_SWITCHPOINT_ZONE (JObj [(''heatSetpoint'', JFloat 4.5), (''Timeofday'', JStr ''06:30:00'')])"
proof -
  have t: "strptime_ok ''%H:%M:00'' ''06:30:00''"
    by (simp add: strptime_ok_def is_digit_def)
  have ne: "SZ_HEAT_SETPOINT \<noteq> SZ_TIME_OF_DAY" "SZ_HEAT_SETPOINT \<noteq> capitalize SZ_TIME_OF_DAY"
    by (simp_all add: capitalize_keys) (simp_all add: SZ_HEAT_SETPOINT_def SZ_TIME_OF_DAY_def)
  have k: "SZ_HEAT_SETPOINT = ''heatSetpoint''" "SZ_TIME_OF_DAY = ''timeOfDay''"
    "capitalize ''timeOfDay'' = ''Timeofday''"
    using capitalize_keys(4) by (simp_all add: SZ_HEAT_SETPOINT_def SZ_TIME_OF_DAY_def)
  have w: "validates SCH_GET_SWITCHPOINT_ZONE (JObj [(SZ_HEAT_SETPOINT, JFloat v), (SZ_TIME_OF_DAY, JStr ''06:30:00'')])
        = (5 \<le> v \<and> v \<le> 35)
      \<and> validates SCH_PUT_SWITCHPOINT_ZONE (JObj [(SZ_HEAT_SETPOINT, JFloat v), (capitalize SZ_TIME_OF_DAY, JStr ''06:30:00'')])
        = (5 \<le> v \<and> v \<le> 35)" for v
    using switchpoint_zone_setpoint_range
      [of "[(SZ_HEAT_SETPOINT, JFloat v), (SZ_TIME_OF_DAY, JStr ''06:30:00'')]" "JFloat v" "''06:30:00''"
          "[(SZ_HEAT_SETPOINT, JFloat v), (capitalize SZ_TIME_OF_DAY, JStr ''06:30:00'')]", OF _ _ _ _ _ _ _ _ t]
      ne
    by simp
  from w [of 5] w [of 35] w [of "35.5"] w [of "4.5"] show ?thesis
    by (simp add: k)
qed

text \<open>
  The claim as the spec words it fails at the document
  \<^verbatim>\<open>{"heatSetpoint": 20, "timeOfDay": "06:30:00"}\<close>: the integer 20 lies inside the
  interval, and the schema refuses it, for GET and (with \<^verbatim>\<open>Timeofday\<close>) for PUT.
\<close>

theorem switchpoint_zone_setpoint_range_counterexample:
  "(5::real) \<le> of_int 20 \<and> of_int 20 \<le> (35::real)
   \<and> strptime_ok ''%H:%M:00'' ''06:30:00''
   \<and> Schema_call SCH_GET_SWITCHPOINT_ZONE (JObj [(''heatSetpoint'', JInt 20), (''timeOfDay'', JStr ''06:30:00'')])
       = Inl MultipleInvalid
   \<and> Schema_call SCH_PUT_SWITCHPOINT_ZONE (JObj [(''heatSetpoint'', JInt 20), (''Timeofday'', JStr ''06:30:00'')])
       = Inl MultipleInvalid"
  by (simp add: Schema_call_def SCH_GET_SWITCHPOINT_ZONE_def SCH_PUT_SWITCHPOINT_ZONE_def capitalize_keys
      SZ_HEAT_SETPOINT_def SZ_TIME_OF_DAY_def strptime_ok_def is_digit_def)

subsection \<open>The keys of schedule documents\<close>

lemma num_of_doc_keys: "num_of d = Some x \<Longrightarrow> doc_keys d = {}"
  by (cases d) auto

text \<open>A document that a schema accepts holds only keys of the schema.\<close>

lemma validates_doc_keys:
  "(validates s d \<longrightarrow> doc_keys d \<subseteq> schema_keys s)"
  "(validates_Any ss d \<longrightarrow> doc_keys d \<subseteq> schemas_keys ss)"
  "(validates_All ss d \<longrightarrow> doc_keys d \<subseteq> all_keys ss)"
  "(validates_item ms k v \<longrightarrow> insert k (doc_keys v) \<subseteq> markers_keys ms)"
  "(validates_marker m v \<longrightarrow> insert (marker_key m) (doc_keys v) \<subseteq> marker_keys m)"
proof (induction s d and ss d and ss d and ms k v and m v
    rule: validates_validates_Any_validates_All_validates_item_validates_marker.induct)
  case (1 b d)
  then show ?case by (auto dest: num_of_doc_keys)
next
  case (2 s d)
  then show ?case by auto
next
  case (3 t d)
  then show ?case by (cases d; cases t) auto
next
  case (4 ss d)
  then show ?case by auto
next
  case (5 ss d)
  then show ?case by auto
next
  case (6 lo hi d)
  then show ?case by (auto dest: num_of_doc_keys split: option.splits)
next
  case (7 fmt d)
  then show ?case by (cases d) auto
next
  case (8 ss d)
  then show ?case by (cases d) (auto simp: list_all_iff)
next
  case (9 ms d)
  then show ?case by (cases d) (auto simp: list_all_iff)
next
  case (10 d)
  then show ?case by simp
next
  case (11 s ss d)
  then show ?case by auto
next
  case (12 d)
  then show ?case by simp
next
  case (13 s ss d)
  then show ?case by auto
next
  case (14 k v)
  then show ?case by simp
next
  case (15 m ms k v)
  then show ?case by auto
next
  case (16 k s v)
  then show ?case by auto
next
  case (17 k s v)
  then show ?case by auto
qed

lemma get_schedule_keys: "schema_keys SCH_GET_SCHEDULE =
    {''dailySchedules'', ''dayOfWeek'', ''switchpoints'', ''timeOfDay'', ''heatSetpoint'', ''dhwState''}"
  by (auto simp: SCH_GET_SCHEDULE_def SCH_GET_SCHEDULE_DHW_def SCH_GET_SCHEDULE_ZONE_def
    SCH_GET_DAY_OF_WEEK_ZONE_def SCH_GET_DAY_OF_WEEK_DHW_def SCH_GET_SWITCHPOINT_ZONE_def
    SCH_GET_SWITCHPOINT_DHW_def DAYS_OF_WEEK_def SZ_DAILY_SCHEDULES_def SZ_DAY_OF_WEEK_def
    SZ_DHW_STATE_def SZ_HEAT_SETPOINT_def SZ_SWITCHPOINTS_def SZ_TIME_OF_DAY_def)

text \<open>The keys of the PUT schemas, computed: what \<^verbatim>\<open>str.capitalize()\<close> returns on the GET keys.\<close>

lemma put_schedule_keys: "schema_keys SCH_PUT_SCHEDULE =
    {''Dailyschedules'', ''Dayofweek'', ''Switchpoints'', ''Timeofday'', ''heatSetpoint'', ''Dhwstate''}"
  by (auto simp: SCH_PUT_SCHEDULE_def SCH_PUT_SCHEDULE_DHW_def SCH_PUT_SCHEDULE_ZONE_def
    SCH_PUT_DAY_OF_WEEK_ZONE_def SCH_PUT_DAY_OF_WEEK_DHW_def SCH_PUT_SWITCHPOINT_ZONE_def
    SCH_PUT_SWITCHPOINT_DHW_def capitalize_keys SZ_HEAT_SETPOINT_def)

lemma put_key_cases:
  assumes "k \<in> {''Dailyschedules'', ''Dayofweek'', ''Switchpoints'', ''Timeofday'', ''heatSetpoint'', ''Dhwstate''}"
  shows "k = ''Dailyschedules'' \<or> k = ''Dayofweek'' \<or> k = ''Switchpoints'' \<or> k = ''Timeofday''
     \<or> k = ''heatSetpoint'' \<or> k = ''Dhwstate''"
  using assms by (simp only: insert_iff empty_iff simp_thms)

lemma put_key_shape:
  assumes "k \<in> {''Dailyschedules'', ''Dayofweek'', ''Switchpoints'', ''Timeofday'', ''heatSetpoint'', ''Dhwstate''}"
  shows "k = ''heatSetpoint'' \<or>
     (to_upper (hd k) = hd k \<and> to_lower (hd k) \<noteq> hd k
      \<and> map to_lower k \<in> map to_lower ` {''dailySchedules'', ''dayOfWeek'', ''switchpoints'', ''timeOfDay'', ''dhwState''})"
  using put_key_cases [OF assms]
proof (elim disjE)
  assume "k = ''Dailyschedules''" then show ?thesis by (simp add: to_lower_def to_upper_def)
next
  assume "k = ''Dayofweek''" then show ?thesis by (simp add: to_lower_def to_upper_def)
next
  assume "k = ''Switchpoints''" then show ?thesis by (simp add: to_lower_def to_upper_def)
next
  assume "k = ''Timeofday''" then show ?thesis by (simp add: to_lower_def to_upper_def)
next
  assume "k = ''heatSetpoint''" then show ?thesis by simp
next
  assume "k = ''Dhwstate''" then show ?thesis by (simp add: to_lower_def to_upper_def)
qed

text \<open>
  Two documents the schemas accept. The day of a GET document is written as a list,
  because the schema's validator for \<^verbatim>\<open>dayOfWeek\<close> is the list schema
  \<^verbatim>\<open>vol.Any(list(DAYS_OF_WEEK))\<close>.
\<close>

lemma get_schedule_example:
  "validates SCH_GET_SCHEDULE (JObj [(''dailySchedules'', JList [JObj
      [(''dayOfWeek'', JList [JStr ''Monday'']),
       (''switchpoints'', JList [JObj [(''heatSetpoint'', JFloat 20), (''timeOfDay'', JStr ''06:30:00'')]])]])])"
  by (simp add: SCH_GET_SCHEDULE_def SCH_GET_SCHEDULE_DHW_def SCH_GET_SCHEDULE_ZONE_def
    SCH_GET_DAY_OF_WEEK_ZONE_def SCH_GET_DAY_OF_WEEK_DHW_def SCH_GET_SWITCHPOINT_ZONE_def
    SCH_GET_SWITCHPOINT_DHW_def DAYS_OF_WEEK_def SZ_DAILY_SCHEDULES_def SZ_DAY_OF_WEEK_def
    SZ_DHW_STATE_def SZ_HEAT_SETPOINT_def SZ_SWITCHPOINTS_def SZ_TIME_OF_DAY_def
    required_present_def strptime_ok_def is_digit_def)

lemma put_schedule_example:
  "validates SCH_PUT_SCHEDULE (JObj [(''Dailyschedules'', JList [JObj
      [(''Dayofweek'', JInt 0),
       (''Switchpoints'', JList [JObj [(''heatSetpoint'', JFloat 20), (''Timeofday'', JStr ''06:30:00'')]])]])])"
  by (simp add: SCH_PUT_SCHEDULE_def SCH_PUT_SCHEDULE_DHW_def SCH_PUT_SCHEDULE_ZONE_def
    SCH_PUT_DAY_OF_WEEK_ZONE_def SCH_PUT_DAY_OF_WEEK_DHW_def SCH_PUT_SWITCHPOINT_ZONE_def
    SCH_PUT_SWITCHPOINT_DHW_def capitalize_keys SZ_HEAT_SETPOINT_def
    required_present_def strptime_ok_def is_digit_def)

text \<open>
  C2, as the code has it. A document that the GET schedule schema accepts holds no key but
  \<^verbatim>\<open>dailySchedules\<close>, \<^verbatim>\<open>dayOfWeek\<close>, \<^verbatim>\<open>switchpoints\<close>, \<^verbatim>\<open>timeOfDay\<close>, \<^verbatim>\<open>heatSetpoint\<close> and \<^verbatim>\<open>dhwState\<close>.
  A document that the PUT schedule schema accepts never holds \<^verbatim>\<open>HeatSetpoint\<close>: the setpoint
  of a zone switchpoint keeps its GET spelling \<^verbatim>\<open>heatSetpoint\<close> (a zone switchpoint must carry
  that key, for GET and for PUT alike), and every other PUT key starts with a capital letter
  and is, letter case apart, one of the other five GET keys.
\<close>

theorem schedule_schema_keys:
  "(validates SCH_GET_SCHEDULE g \<longrightarrow>
      doc_keys g \<subseteq> {''dailySchedules'', ''dayOfWeek'', ''switchpoints'', ''timeOfDay'', ''heatSetpoint'', ''dhwState''})
   \<and> (validates SCH_PUT_SCHEDULE p \<longrightarrow>
      ''HeatSetpoint'' \<notin> doc_keys p
      \<and> (\<forall>k \<in> doc_keys p. k = ''heatSetpoint'' \<or>
           (to_upper (hd k) = hd k \<and> to_lower (hd k) \<noteq> hd k
            \<and> map to_lower k \<in> map to_lower ` {''dailySchedules'', ''dayOfWeek'', ''switchpoints'', ''timeOfDay'', ''dhwState''})))
   \<and> (validates SCH_GET_SWITCHPOINT_ZONE (JObj z) \<longrightarrow> ''heatSetpoint'' \<in> fst ` set z)
   \<and> (validates SCH_PUT_SWITCHPOINT_ZONE (JObj z) \<longrightarrow> ''heatSetpoint'' \<in> fst ` set z)"
proof (intro conjI impI)
  assume "validates SCH_GET_SCHEDULE g"
  then show "doc_keys g \<subseteq> {''dailySchedules'', ''dayOfWeek'', ''switchpoints'', ''timeOfDay'', ''heatSetpoint'', ''dhwState''}"
    using validates_doc_keys(1) [of SCH_GET_SCHEDULE g] by (simp only: get_schedule_keys)
next
  assume "validates SCH_PUT_SCHEDULE p"
  then have sub: "doc_keys p \<subseteq> {''Dailyschedules'', ''Dayofweek'', ''Switchpoints'', ''Timeofday'', ''heatSetpoint'', ''Dhwstate''}"
    using validates_doc_keys(1) [of SCH_PUT_SCHEDULE p] by (simp only: put_schedule_keys)
  have "''HeatSetpoint'' \<notin> {''Dailyschedules'', ''Dayofweek'', ''Switchpoints'', ''Timeofday'', ''heatSetpoint'', ''Dhwstate''}"
    by simp
  with sub show "''HeatSetpoint'' \<notin> doc_keys p"
    by (rule contra_subsetD)
  show "\<forall>k \<in> doc_keys p. k = ''heatSetpoint'' \<or>
           (to_upper (hd k) = hd k \<and> to_lower (hd k) \<noteq> hd k
            \<and> map to_lower k \<in> map to_lower ` {''dailySchedules'', ''dayOfWeek'', ''switchpoints'', ''timeOfDay'', ''dhwState''})"
  proof
    fix k assume "k \<in> doc_keys p"
    with sub have "k \<in> {''Dailyschedules'', ''Dayofweek'', ''Switchpoints'', ''Timeofday'', ''heatSetpoint'', ''Dhwstate''}"
      by (rule subsetD)
    then show "k = ''heatSetpoint'' \<or>
           (to_upper (hd k) = hd k \<and> to_lower (hd k) \<noteq> hd k
            \<and> map to_lower k \<in> map to_lower ` {''dailySchedules'', ''dayOfWeek'', ''switchpoints'', ''timeOfDay'', ''dhwState''})"
      by (rule put_key_shape)
  qed
next
  assume "validates SCH_GET_SWITCHPOINT_ZONE (JObj z)"
  then show "''heatSetpoint'' \<in> fst ` set z"
    by (simp add: SCH_GET_SWITCHPOINT_ZONE_def required_present_def SZ_HEAT_SETPOINT_def
        del: validates_item.simps)
next
  assume "validates SCH_PUT_SWITCHPOINT_ZONE (JObj z)"
  then show "''heatSetpoint'' \<in> fst ` set z"
    by (simp add: SCH_PUT_SWITCHPOINT_ZONE_def required_present_def SZ_HEAT_SETPOINT_def
        del: validates_item.simps)
qed

theorem schedule_schema_keys_witness:
  "doc_keys (JObj [(''dailySchedules'', JList [JObj
      [(''dayOfWeek'', JList [JStr ''Monday'']),
       (''switchpoints'', JList [JObj [(''heatSetpoint'', JFloat 20), (''timeOfDay'', JStr ''06:30:00'')]])]])])
     \<subseteq> {''dailySchedules'', ''dayOfWeek'', ''switchpoints'', ''timeOfDay'', ''heatSetpoint'', ''dhwState''}
   \<and> ''HeatSetpoint'' \<notin> doc_keys (JObj [(''Dailyschedules'', JList [JObj
      [(''Dayofweek'', JInt 0),
       (''Switchpoints'', JList [JObj [(''heatSetpoint'', JFloat 20), (''Timeofday'', JStr ''06:30:00'')]])]])])
   \<and> ''heatSetpoint'' \<in> fst ` set [(''heatSetpoint'', JFloat 20), (''Timeofday'', JStr ''06:30:00'')]"
proof -
  have z: "validates SCH_PUT_SWITCHPOINT_ZONE (JObj [(''heatSetpoint'', JFloat 20), (''Timeofday'', JStr ''06:30:00'')])"
    by (simp add: SCH_PUT_SWITCHPOINT_ZONE_def capitalize_keys SZ_HEAT_SETPOINT_def
      required_present_def strptime_ok_def is_digit_def)
  note th = schedule_schema_keys
    [of "JObj [(''dailySchedules'', JList [JObj
          [(''dayOfWeek'', JList [JStr ''Monday'']),
           (''switchpoints'', JList [JObj [(''heatSetpoint'', JFloat 20), (''timeOfDay'', JStr ''06:30:00'')]])]])]"
        "JObj [(''Dailyschedules'', JList [JObj
          [(''Dayofweek'', JInt 0),
           (''Switchpoints'', JList [JObj [(''heatSetpoint'', JFloat 20), (''Timeofday'', JStr ''06:30:00'')]])]])]"
        "[(''heatSetpoint'', JFloat 20), (''Timeofday'', JStr ''06:30:00'')]"]
  from th [THEN conjunct1] get_schedule_example have a: "doc_keys (JObj [(''dailySchedules'', JList [JObj
      [(''dayOfWeek'', JList [JStr ''Monday'']),
       (''switchpoints'', JList [JObj [(''heatSetpoint'', JFloat 20), (''timeOfDay'', JStr ''06:30:00'')]])]])])
     \<subseteq> {''dailySchedules'', ''dayOfWeek'', ''switchpoints'', ''timeOfDay'', ''heatSetpoint'', ''dhwState''}"
    by (rule mp)
  from th [THEN conjunct2, THEN conjunct1] put_schedule_example
  have b: "''HeatSetpoint'' \<notin> doc_keys (JObj [(''Dailyschedules'', JList [JObj
      [(''Dayofweek'', JInt 0),
       (''Switchpoints'', JList [JObj [(''heatSetpoint'', JFloat 20), (''Timeofday'', JStr ''06:30:00'')]])]])])"
    by (rule mp [THEN conjunct1])
  from th [THEN conjunct2, THEN conjunct2, THEN conjunct2] z
  have c: "''heatSetpoint'' \<in> fst ` set [(''heatSetpoint'', JFloat 20), (''Timeofday'', JStr ''06:30:00'')]"
    by (rule mp)
  from a b c show ?thesis by (intro conjI)
qed

text \<open>
  The claim as the spec words it fails at the PUT document
  \<^verbatim>\<open>{"Dailyschedules": [{"Dayofweek": 0, "Switchpoints": [{"heatSetpoint": 20.0, "Timeofday": "06:30:00"}]}]}\<close>:
  the schema accepts it, and its setpoint key is \<^verbatim>\<open>heatSetpoint\<close>, not \<^verbatim>\<open>HeatSetpoint\<close>.
\<close>

theorem schedule_schema_keys_counterexample:
  "validates SCH_PUT_SCHEDULE (JObj [(''Dailyschedules'', JList [JObj
      [(''Dayofweek'', JInt 0),
       (''Switchpoints'', JList [JObj [(''heatSetpoint'', JFloat 20), (''Timeofday'', JStr ''06:30:00'')]])]])])
   \<and> ''heatSetpoint'' \<in> doc_keys (JObj [(''Dailyschedules'', JList [JObj
      [(''Dayofweek'', JInt 0),
       (''Switchpoints'', JList [JObj [(''heatSetpoint'', JFloat 20), (''Timeofday'', JStr ''06:30:00'')]])]])])
   \<and> ''HeatSetpoint'' \<notin> doc_keys (JObj [(''Dailyschedules'', JList [JObj
      [(''Dayofweek'', JInt 0),
       (''Switchpoints'', JList [JObj [(''heatSetpoint'', JFloat 20), (''Timeofday'', JStr ''06:30:00'')]])]])])"
  using put_schedule_example by simp

section \<open>Properties of the system-mode capability schemas\<close>

lemma validates_Schema_keys:
  assumes "validates (vol_Schema ms) d" and "list_all is_required ms"
  shows "\<exists>kvs. d = JObj kvs \<and> set (map fst kvs) = marker_key ` set ms"
proof -
  from assms(1) obtain kvs where d: "d = JObj kvs"
    by (cases d) auto
  have item: "validates_item ms k v \<Longrightarrow> k \<in> marker_key ` set ms" for k v
    by (induction ms) (auto split: if_splits)
  from assms(1) d have a: "\<forall>kv \<in> set kvs. validates_item ms (fst kv) (snd kv)"
    and b: "required_present ms (map fst kvs)"
    by (simp_all add: list_all_iff)
  from a item have "fst ` set kvs \<subseteq> marker_key ` set ms"
    by auto
  moreover from b assms(2) have "marker_key ` set ms \<subseteq> fst ` set kvs"
    by (auto simp: required_present_def list_all_iff)
  ultimately show ?thesis using d by auto
qed

lemma validates_Schema_value:
  assumes "validates (vol_Schema ms) (JObj kvs)" and "(k, v) \<in> set kvs"
  shows "validates_item ms k v"
  using assms by (auto simp: list_all_iff)

lemma perm_shape:
  assumes dk: "distinct_keys c" and v: "validates (SCH_SYSTEM_MODE_PERM c) e"
  shows "\<exists>kvs. e = JObj kvs
     \<and> set (map fst kvs) = {SZ_SYSTEM_MODE c, SZ_CAN_BE_PERMANENT c, SZ_CAN_BE_TEMPORARY c}
     \<and> (\<forall>v. (SZ_CAN_BE_TEMPORARY c, v) \<in> set kvs \<longrightarrow> num_of v = Some 0)"
proof -
  from validates_Schema_keys [OF v [unfolded SCH_SYSTEM_MODE_PERM_def]]
  obtain kvs where e: "e = JObj kvs"
    and keys: "set (map fst kvs) = {SZ_SYSTEM_MODE c, SZ_CAN_BE_PERMANENT c, SZ_CAN_BE_TEMPORARY c}"
    by auto
  have "num_of x = Some 0" if "(SZ_CAN_BE_TEMPORARY c, x) \<in> set kvs" for x
    using validates_Schema_value [OF v [unfolded SCH_SYSTEM_MODE_PERM_def e] that] dk
    by (auto simp: distinct_keys_def split: if_splits)
  with e keys show ?thesis by blast
qed

lemma temp_shape:
  assumes dk: "distinct_keys c" and v: "validates (SCH_SYSTEM_MODE_TEMP c) e"
  shows "\<exists>kvs. e = JObj kvs
     \<and> set (map fst kvs) = {SZ_SYSTEM_MODE c, SZ_CAN_BE_PERMANENT c, SZ_CAN_BE_TEMPORARY c,
          SZ_MAX_DURATION c, SZ_TIMING_RESOLUTION c, SZ_TIMING_MODE c}
     \<and> (\<forall>v. (SZ_CAN_BE_TEMPORARY c, v) \<in> set kvs \<longrightarrow> num_of v = Some 1)
     \<and> (\<forall>v. (SZ_MAX_DURATION c, v) \<in> set kvs \<longrightarrow> (\<exists>s. v = JStr s))
     \<and> (\<forall>v. (SZ_TIMING_RESOLUTION c, v) \<in> set kvs \<longrightarrow> (\<exists>s. v = JStr s))
     \<and> (\<forall>v. (SZ_TIMING_MODE c, v) \<in> set kvs \<longrightarrow> v = JStr ''Duration'' \<or> v = JStr ''Period'')"
proof -
  from validates_Schema_keys [OF v [unfolded SCH_SYSTEM_MODE_TEMP_def]]
  obtain kvs where e: "e = JObj kvs"
    and keys: "set (map fst kvs) = {SZ_SYSTEM_MODE c, SZ_CAN_BE_PERMANENT c, SZ_CAN_BE_TEMPORARY c,
          SZ_MAX_DURATION c, SZ_TIMING_RESOLUTION c, SZ_TIMING_MODE c}"
    by auto
  note item = validates_Schema_value [OF v [unfolded SCH_SYSTEM_MODE_TEMP_def e]]
  have 1: "num_of x = Some 1" if "(SZ_CAN_BE_TEMPORARY c, x) \<in> set kvs" for x
    using item [OF that] dk by (auto simp: distinct_keys_def split: if_splits)
  have 2: "\<exists>s. x = JStr s" if "(SZ_MAX_DURATION c, x) \<in> set kvs" for x
    using item [OF that] dk by (cases x) (auto simp: distinct_keys_def split: if_splits)
  have 3: "\<exists>s. x = JStr s" if "(SZ_TIMING_RESOLUTION c, x) \<in> set kvs" for x
    using item [OF that] dk by (cases x) (auto simp: distinct_keys_def split: if_splits)
  have 4: "x = JStr ''Duration'' \<or> x = JStr ''Period''" if "(SZ_TIMING_MODE c, x) \<in> set kvs" for x
    using item [OF that] dk by (auto simp: distinct_keys_def SZ_DURATION_def SZ_PERIOD_def split: if_splits)
  from e keys 1 2 3 4 show ?thesis by blast
qed

text \<open>
  C7. An entry is accepted by \<^verbatim>\<open>SCH_ALLOWED_SYSTEM_MODE\<close> exactly when one of the two schemas
  accepts it, and never both do. An entry of the permanent-only shape is a dictionary with
  the mode, \<^verbatim>\<open>canBePermanent\<close> and \<^verbatim>\<open>canBeTemporary\<close> (equal to \<^verbatim>\<open>False\<close>) and no duration field;
  an entry of the permanent-or-temporary shape has \<^verbatim>\<open>canBeTemporary\<close> equal to \<^verbatim>\<open>True\<close> and, with
  these three, a maximal duration and a timing resolution (strings) and a timing mode that
  is \<^verbatim>\<open>"Duration"\<close> or \<^verbatim>\<open>"Period"\<close>. So an entry of neither shape is refused.
\<close>

theorem allowed_system_mode_shapes:
  assumes "distinct_keys c"
  shows "validates (SCH_ALLOWED_SYSTEM_MODE c) e
        = (validates (SCH_SYSTEM_MODE_PERM c) e \<or> validates (SCH_SYSTEM_MODE_TEMP c) e)
    \<and> \<not> (validates (SCH_SYSTEM_MODE_PERM c) e \<and> validates (SCH_SYSTEM_MODE_TEMP c) e)
    \<and> (validates (SCH_SYSTEM_MODE_PERM c) e \<longrightarrow>
         (\<exists>kvs. e = JObj kvs
            \<and> set (map fst kvs) = {SZ_SYSTEM_MODE c, SZ_CAN_BE_PERMANENT c, SZ_CAN_BE_TEMPORARY c}
            \<and> SZ_MAX_DURATION c \<notin> set (map fst kvs)
            \<and> SZ_TIMING_RESOLUTION c \<notin> set (map fst kvs)
            \<and> SZ_TIMING_MODE c \<notin> set (map fst kvs)
            \<and> (\<forall>v. (SZ_CAN_BE_TEMPORARY c, v) \<in> set kvs \<longrightarrow> num_of v = Some 0)))
    \<and> (validates (SCH_SYSTEM_MODE_TEMP c) e \<longrightarrow>
         (\<exists>kvs. e = JObj kvs
            \<and> set (map fst kvs) = {SZ_SYSTEM_MODE c, SZ_CAN_BE_PERMANENT c, SZ_CAN_BE_TEMPORARY c,
                 SZ_MAX_DURATION c, SZ_TIMING_RESOLUTION c, SZ_TIMING_MODE c}
            \<and> (\<forall>v. (SZ_CAN_BE_TEMPORARY c, v) \<in> set kvs \<longrightarrow> num_of v = Some 1)
            \<and> (\<forall>v. (SZ_MAX_DURATION c, v) \<in> set kvs \<longrightarrow> (\<exists>s. v = JStr s))
            \<and> (\<forall>v. (SZ_TIMING_RESOLUTION c, v) \<in> set kvs \<longrightarrow> (\<exists>s. v = JStr s))
            \<and> (\<forall>v. (SZ_TIMING_MODE c, v) \<in> set kvs \<longrightarrow> v = JStr ''Duration'' \<or> v = JStr ''Period'')))"
proof (intro conjI impI)
  show "validates (SCH_ALLOWED_SYSTEM_MODE c) e
        = (validates (SCH_SYSTEM_MODE_PERM c) e \<or> validates (SCH_SYSTEM_MODE_TEMP c) e)"
    by (simp add: SCH_ALLOWED_SYSTEM_MODE_def)
next
  show "\<not> (validates (SCH_SYSTEM_MODE_PERM c) e \<and> validates (SCH_SYSTEM_MODE_TEMP c) e)"
  proof
    assume both: "validates (SCH_SYSTEM_MODE_PERM c) e \<and> validates (SCH_SYSTEM_MODE_TEMP c) e"
    from perm_shape [OF assms both [THEN conjunct1]] temp_shape [OF assms both [THEN conjunct2]]
    have "{SZ_SYSTEM_MODE c, SZ_CAN_BE_PERMANENT c, SZ_CAN_BE_TEMPORARY c}
        = {SZ_SYSTEM_MODE c, SZ_CAN_BE_PERMANENT c, SZ_CAN_BE_TEMPORARY c,
           SZ_MAX_DURATION c, SZ_TIMING_RESOLUTION c, SZ_TIMING_MODE c}"
      by auto
    then have "SZ_MAX_DURATION c \<in> {SZ_SYSTEM_MODE c, SZ_CAN_BE_PERMANENT c, SZ_CAN_BE_TEMPORARY c}"
      by blast
    with assms show False
      by (auto simp: distinct_keys_def)
  qed
next
  assume "validates (SCH_SYSTEM_MODE_PERM c) e"
  from perm_shape [OF assms this] obtain kvs where e: "e = JObj kvs"
    and keys: "set (map fst kvs) = {SZ_SYSTEM_MODE c, SZ_CAN_BE_PERMANENT c, SZ_CAN_BE_TEMPORARY c}"
    and f: "\<forall>v. (SZ_CAN_BE_TEMPORARY c, v) \<in> set kvs \<longrightarrow> num_of v = Some 0"
    by blast
  from keys assms have "SZ_MAX_DURATION c \<notin> set (map fst kvs)"
    "SZ_TIMING_RESOLUTION c \<notin> set (map fst kvs)" "SZ_TIMING_MODE c \<notin> set (map fst kvs)"
    by (auto simp: distinct_keys_def)
  with e keys f show "\<exists>kvs. e = JObj kvs
            \<and> set (map fst kvs) = {SZ_SYSTEM_MODE c, SZ_CAN_BE_PERMANENT c, SZ_CAN_BE_TEMPORARY c}
            \<and> SZ_MAX_DURATION c \<notin> set (map fst kvs)
            \<and> SZ_TIMING_RESOLUTION c \<notin> set (map fst kvs)
            \<and> SZ_TIMING_MODE c \<notin> set (map fst kvs)
            \<and> (\<forall>v. (SZ_CAN_BE_TEMPORARY c, v) \<in> set kvs \<longrightarrow> num_of v = Some 0)"
    by blast
next
  assume "validates (SCH_SYSTEM_MODE_TEMP c) e"
  then show "\<exists>kvs. e = JObj kvs
            \<and> set (map fst kvs) = {SZ_SYSTEM_MODE c, SZ_CAN_BE_PERMANENT c, SZ_CAN_BE_TEMPORARY c,
                 SZ_MAX_DURATION c, SZ_TIMING_RESOLUTION c, SZ_TIMING_MODE c}
            \<and> (\<forall>v. (SZ_CAN_BE_TEMPORARY c, v) \<in> set kvs \<longrightarrow> num_of v = Some 1)
            \<and> (\<forall>v. (SZ_MAX_DURATION c, v) \<in> set kvs \<longrightarrow> (\<exists>s. v = JStr s))
            \<and> (\<forall>v. (SZ_TIMING_RESOLUTION c, v) \<in> set kvs \<longrightarrow> (\<exists>s. v = JStr s))
            \<and> (\<forall>v. (SZ_TIMING_MODE c, v) \<in> set kvs \<longrightarrow> v = JStr ''Duration'' \<or> v = JStr ''Period'')"
    by (rule temp_shape [OF assms])
qed

text \<open>
  The theorem at three entries: \<^verbatim>\<open>Auto\<close> (permanent only), \<^verbatim>\<open>Away\<close> with its duration fields,
  and \<^verbatim>\<open>Away\<close> without them, which is of neither shape and is refused.
\<close>

theorem allowed_system_mode_shapes_witness:
  "validates (SCH_ALLOWED_SYSTEM_MODE example_const)
     (JObj [(''systemMode'', JStr ''Auto''), (''canBePermanent'', JBool True), (''canBeTemporary'', JBool False)])
   \<and> validates (SCH_ALLOWED_SYSTEM_MODE example_const)
     (JObj [(''systemMode'', JStr ''Away''), (''canBePermanent'', JBool True), (''canBeTemporary'', JBool True),
            (''maxDuration'', JStr ''99.00:00:00''), (''timingResolution'', JStr ''1.00:00:00''),
            (''timingMode'', JStr ''Period'')])
   \<and> \<not> validates (SCH_ALLOWED_SYSTEM_MODE example_const)
     (JObj [(''systemMode'', JStr ''Away''), (''canBePermanent'', JBool True), (''canBeTemporary'', JBool True)])"
proof -
  have d: "distinct_keys example_const"
    by (simp add: distinct_keys_def example_const_def)
  have ev: "validates (SCH_SYSTEM_MODE_PERM example_const)
     (JObj [(''systemMode'', JStr ''Auto''), (''canBePermanent'', JBool True), (''canBeTemporary'', JBool False)])"
    "validates (SCH_SYSTEM_MODE_TEMP example_const)
     (JObj [(''systemMode'', JStr ''Away''), (''canBePermanent'', JBool True), (''canBeTemporary'', JBool True),
            (''maxDuration'', JStr ''99.00:00:00''), (''timingResolution'', JStr ''1.00:00:00''),
            (''timingMode'', JStr ''Period'')])"
    "\<not> validates (SCH_SYSTEM_MODE_PERM example_const)
     (JObj [(''systemMode'', JStr ''Away''), (''canBePermanent'', JBool True), (''canBeTemporary'', JBool True)])"
    "\<not> validates (SCH_SYSTEM_MODE_TEMP example_const)
     (JObj [(''systemMode'', JStr ''Away''), (''canBePermanent'', JBool True), (''canBeTemporary'', JBool True)])"
    by (simp_all add: SCH_SYSTEM_MODE_PERM_def SCH_SYSTEM_MODE_TEMP_def example_const_def
        required_present_def SZ_DURATION_def SZ_PERIOD_def)
  note th = allowed_system_mode_shapes [OF d, THEN conjunct1]
  show ?thesis
    by (simp only: th ev simp_thms)
qed

section \<open>Properties of the control system\<close>

subsection \<open>The body of a mode change\<close>

text \<open>
  C1. When both calls for the headers return and the system has its identifier,
  \<^verbatim>\<open>_set_status\<close> sends one request, to the mode address of the system. Without an end time its
  body is \<^verbatim>\<open>{"SystemMode": mode, "TimeUntil": null, "Permanent": true}\<close>; with an end time \<open>u\<close> the
  body has \<^verbatim>\<open>Permanent\<close> false and \<^verbatim>\<open>TimeUntil\<close> is \<open>u\<close> formatted with \<^verbatim>\<open>API_STRFTIME\<close>. \<^verbatim>\<open>set_status\<close>
  and the seven named operations are \<^verbatim>\<open>_set_status\<close> at their mode (\<^verbatim>\<open>Auto\<close> and \<^verbatim>\<open>AutoWithReset\<close>
  without an end time).
\<close>

theorem set_status_request_body:
  assumes "headers client w = (Inr h, w1)"
    and "headers client w1 = (Inr h2, w2)"
    and "map_of (attrs self) ''systemId'' = Some system_id"
    and "url = URL_BASE client @ ''/temperatureControlSystem/'' @ py_str system_id @ ''/mode''"
  shows "ControlSystem__set_status client self mode None w
       = session_put client url
           (JObj [(''SystemMode'', JStr mode), (''TimeUntil'', JNull), (''Permanent'', JBool True)]) h2 w2
     \<and> ControlSystem__set_status client self mode (Some u) w
       = session_put client url
           (JObj [(''SystemMode'', JStr mode), (''TimeUntil'', JStr (strftime u (API_STRFTIME client))),
                  (''Permanent'', JBool False)]) h2 w2
     \<and> ControlSystem_set_status client self mode until w = ControlSystem__set_status client self mode until w
     \<and> set_status_normal client self w = ControlSystem__set_status client self ''Auto'' None w
     \<and> set_status_reset client self w = ControlSystem__set_status client self ''AutoWithReset'' None w
     \<and> set_status_custom client self until w = ControlSystem__set_status client self ''Custom'' until w
     \<and> set_status_eco client self until w = ControlSystem__set_status client self ''AutoWithEco'' until w
     \<and> set_status_away client self until w = ControlSystem__set_status client self ''Away'' until w
     \<and> set_status_dayoff client self until w = ControlSystem__set_status client self ''DayOff'' until w
     \<and> set_status_heatingoff client self until w = ControlSystem__set_status client self ''HeatingOff'' until w"
  using assms
  by (simp add: ControlSystem__set_status_def set_status_data_def ControlSystem_set_status_def
      set_status_normal_def set_status_reset_def set_status_custom_def set_status_eco_def
      set_status_away_def set_status_dayoff_def set_status_heatingoff_def)

lemma strftime_example:
  "strftime \<lparr>year = 2023, month = 7, day = 4, hour = 18, minute = 30, second = 5\<rparr> ''%Y-%m-%dT%H:%M:%SZ''
     = ''2023-07-04T18:30:05Z''"
  by (simp add: strftime_directive_def zero_pad_def digit_char_def)

text \<open>The theorem for the example client, which records the request it is given.\<close>

theorem set_status_request_body_witness:
  "ControlSystem__set_status example_client example_tcs ''Away'' None []
     = (Inr (), [Sent ''https://example.test/WebAPI/emea/api/v1/temperatureControlSystem/3432579/mode''
          (JObj [(''SystemMode'', JStr ''Away''), (''TimeUntil'', JNull), (''Permanent'', JBool True)])])
   \<and> ControlSystem__set_status example_client example_tcs ''Away''
       (Some \<lparr>year = 2023, month = 7, day = 4, hour = 18, minute = 30, second = 5\<rparr>) []
     = (Inr (), [Sent ''https://example.test/WebAPI/emea/api/v1/temperatureControlSystem/3432579/mode''
          (JObj [(''SystemMode'', JStr ''Away''), (''TimeUntil'', JStr ''2023-07-04T18:30:05Z''),
                 (''Permanent'', JBool False)])])"
proof -
  have h: "headers example_client [] = (Inr [], [])"
    by (simp add: example_client_def)
  have s: "map_of (attrs example_tcs) ''systemId'' = Some (JStr ''3432579'')"
    by (simp add: example_tcs_def)
  have u: "''https://example.test/WebAPI/emea/api/v1/temperatureControlSystem/3432579/mode''
      = URL_BASE example_client @ ''/temperatureControlSystem/'' @ py_str (JStr ''3432579'') @ ''/mode''"
    by (simp add: example_client_def)
  have p: "session_put example_client url d [] [] = (Inr (), [Sent url d])" for url d
    by (simp add: example_client_def)
  have f: "API_STRFTIME example_client = ''%Y-%m-%dT%H:%M:%SZ''"
    by (simp add: example_client_def)
  from set_status_request_body [OF h h s u, of "''Away''" "\<lparr>year = 2023, month = 7, day = 4, hour = 18, minute = 30, second = 5\<rparr>"]
  show ?thesis
    by (simp only: p f strftime_example simp_thms)
qed

subsection \<open>Construction\<close>

lemma map_of_filter_key:
  "k \<noteq> z \<Longrightarrow> map_of (filter (\<lambda>kv. fst kv \<noteq> z) xs) k = map_of xs k"
  by (induction xs) auto

lemma system_id_attr: "map_of (filter (\<lambda>kv. fst kv \<noteq> ''zones'') config) ''systemId'' = map_of config ''systemId''"
  by (rule map_of_filter_key) simp

text \<open>
  C5. A config without the key \<^verbatim>\<open>systemId\<close> makes \<^verbatim>\<open>__init__\<close> raise: reading \<^verbatim>\<open>self.systemId\<close> in
  the assertion is an \<^verbatim>\<open>AttributeError\<close>, so no object is returned. (A \<^verbatim>\<open>systemId\<close> that is there
  and false, such as the empty string, fails the assertion itself.) Assertions are taken
  to be enabled, as they are unless Python runs with \<^verbatim>\<open>-O\<close>.
\<close>

theorem init_without_system_id:
  "(map_of config ''systemId'' = None \<longrightarrow>
      ControlSystem_init client config = Inl (AttributeError ''systemId''))
   \<and> (\<forall>v. map_of config ''systemId'' = Some v \<and> \<not> truthy v \<longrightarrow>
      ControlSystem_init client config = Inl (AssertionError ''Invalid config dict''))
   \<and> (map_of config ''systemId'' = None \<longrightarrow> (\<forall>self. ControlSystem_init client config \<noteq> Inr self))"
  by (simp add: ControlSystem_init_def system_id_attr)

theorem init_without_system_id_witness:
  "ControlSystem_init example_client
      [(''modelType'', JStr ''EvoTouch''),
       (''zones'', JList [JObj [(''zoneId'', JStr ''3432522''), (''name'', JStr ''Lounge'')]])]
     = Inl (AttributeError ''systemId'')
   \<and> ControlSystem_init example_client
      [(''systemId'', JStr []), (''modelType'', JStr ''EvoTouch''),
       (''zones'', JList [JObj [(''zoneId'', JStr ''3432522''), (''name'', JStr ''Lounge'')]])]
     = Inl (AssertionError ''Invalid config dict'')"
proof -
  note a = init_without_system_id [of "[(''modelType'', JStr ''EvoTouch''),
       (''zones'', JList [JObj [(''zoneId'', JStr ''3432522''), (''name'', JStr ''Lounge'')]])]" example_client,
       THEN conjunct1]
  note b = init_without_system_id [of "[(''systemId'', JStr []), (''modelType'', JStr ''EvoTouch''),
       (''zones'', JList [JObj [(''zoneId'', JStr ''3432522''), (''name'', JStr ''Lounge'')]])]" example_client,
       THEN conjunct2, THEN conjunct1, rule_format, of "JStr []"]
  from a b show ?thesis by simp
qed

lemma dict_set_fst:
  "map fst (dict_set d k v) = (if k \<in> set (map fst d) then map fst d else map fst d @ [k])"
  by (induction d) (auto split: if_splits)

lemma dict_set_keys: "set (map fst (dict_set d k v)) = insert k (set (map fst d))"
  by (simp only: dict_set_fst) auto

lemma dict_set_distinct: "distinct (map fst d) \<Longrightarrow> distinct (map fst (dict_set d k v))"
  by (simp only: dict_set_fst) auto

lemma build_zones_closed_form:
  assumes "map mk zone_configs = map Inr zs"
  shows "build_zones mk zone_configs self = Inr (self\<lparr>
            zones_list := zones_list self @ zs,
            zones := fold (\<lambda>z d. dict_set d (name z) z) zs (zones self),
            zones_by_id := fold (\<lambda>z d. dict_set d (zoneId z) z) zs (zones_by_id self)\<rparr>)"
  using assms
proof (induction zone_configs arbitrary: zs self)
  case Nil
  then show ?case by simp
next
  case (Cons zc rest)
  then obtain z zs' where zs: "zs = z # zs'" and z: "mk zc = Inr z" and rest: "map mk rest = map Inr zs'"
    by (cases zs) auto
  show ?case
    by (simp add: zs z Cons.IH [OF rest])
qed

lemma fold_dict_set_keys:
  "set (map fst (fold (\<lambda>z d. dict_set d (f z) z) zs d)) = set (map fst d) \<union> f ` set zs"
proof (induction zs arbitrary: d)
  case Nil
  then show ?case by simp
next
  case (Cons z zs)
  have "set (map fst (fold (\<lambda>z d. dict_set d (f z) z) (z # zs) d))
      = set (map fst (dict_set d (f z) z)) \<union> f ` set zs"
    using Cons.IH [of "dict_set d (f z) z"] by simp
  also have "\<dots> = set (map fst d) \<union> f ` set (z # zs)"
    by (simp only: dict_set_keys) auto
  finally show ?case .
qed

lemma fold_dict_set_distinct:
  "distinct (map fst d) \<Longrightarrow> distinct (map fst (fold (\<lambda>z d. dict_set d (f z) z) zs d))"
proof (induction zs arbitrary: d)
  case Nil
  then show ?case by simp
next
  case (Cons z zs)
  from Cons.prems have "distinct (map fst (dict_set d (f z) z))"
    by (rule dict_set_distinct)
  then show ?case
    using Cons.IH [of "dict_set d (f z) z"] by simp
qed

lemma count_list_distinct: "distinct xs \<Longrightarrow> x \<in> set xs \<Longrightarrow> count_list xs x = 1"
  by (induction xs) auto

text \<open>
  C4. A valid config has a \<^verbatim>\<open>systemId\<close> that is true, a list under \<^verbatim>\<open>zones\<close> whose entries the
  zone constructor accepts, a \<^verbatim>\<open>dhw\<close> block (if there is one) that the hot-water constructor
  accepts, and no key that is an attribute \<^verbatim>\<open>__init__\<close> assigns by name. Construction then
  returns a control system whose zone list has as many zones as the config, the zones of the
  config in its order, and the identifier of every zone is a key of \<^verbatim>\<open>zones_by_id\<close> exactly
  once.
\<close>

theorem init_zone_index:
  assumes sid: "map_of config ''systemId'' = Some system_id" "truthy system_id"
    and zones: "map_of config ''zones'' = Some (JList zone_configs)"
    and mk: "\<forall>zc \<in> set zone_configs. \<exists>z. Zone_init client zc = Inr z"
    and dhw: "\<forall>d. map_of config ''dhw'' = Some d \<and> truthy d \<longrightarrow> (\<exists>hw. HotWater_init client d = Inr hw)"
    and clash: "set (map fst config) \<inter> set instance_attributes = {}"
  shows "\<exists>self. ControlSystem_init client config = Inr self
     \<and> length (zones_list self) = length zone_configs
     \<and> map Inr (zones_list self) = map (Zone_init client) zone_configs
     \<and> (\<forall>z \<in> set (zones_list self). count_list (map fst (zones_by_id self)) (zoneId z) = 1)"
proof -
  define zs where "zs = map (\<lambda>zc. projr (Zone_init client zc)) zone_configs"
  have m: "map (Zone_init client) zone_configs = map Inr zs"
    unfolding zs_def using mk by auto
  define self0 :: ControlSystem where "self0 = \<lparr>attrs = filter (\<lambda>kv. fst kv \<noteq> ''zones'') config,
       zones_list = [], zones = [], zones_by_id = [], hotwater = None\<rparr>"
  define self1 where "self1 = self0\<lparr>
            zones_list := zones_list self0 @ zs,
            zones := fold (\<lambda>z d. dict_set d (name z) z) zs (zones self0),
            zones_by_id := fold (\<lambda>z d. dict_set d (zoneId z) z) zs (zones_by_id self0)\<rparr>"
  have b: "build_zones (Zone_init client) zone_configs self0 = Inr self1"
    unfolding self1_def by (rule build_zones_closed_form [OF m])
  have l: "zones_list self1 = zs"
    by (simp add: self1_def self0_def)
  have keys: "set (map fst (zones_by_id self1)) = zoneId ` set zs"
    using fold_dict_set_keys [of zoneId zs "[]"] by (simp add: self1_def self0_def)
  have dist: "distinct (map fst (zones_by_id self1))"
    using fold_dict_set_distinct [of "[]" zoneId zs] by (simp add: self1_def self0_def)
  have idx: "\<forall>z \<in> set zs. count_list (map fst (zones_by_id self1)) (zoneId z) = 1"
  proof
    fix z assume "z \<in> set zs"
    then have "zoneId z \<in> set (map fst (zones_by_id self1))"
      unfolding keys by (rule imageI)
    with dist show "count_list (map fst (zones_by_id self1)) (zoneId z) = 1"
      by (rule count_list_distinct)
  qed
  have len: "length zs = length zone_configs"
    by (simp add: zs_def)
  have a0: "map_of (attrs self0) ''systemId'' = Some system_id"
    using sid by (simp add: self0_def map_of_filter_key)
  have init: "ControlSystem_init client config =
      (case map_of config ''dhw'' of
         None \<Rightarrow> Inr self1
       | Some d \<Rightarrow>
           if truthy d then
             (case HotWater_init client d of Inl e \<Rightarrow> Inl e | Inr hw \<Rightarrow> Inr (self1\<lparr>hotwater := Some hw\<rparr>))
           else Inr self1)"
    unfolding ControlSystem_init_def Let_def self0_def [symmetric]
    using sid(2) zones b a0 by (simp add: dict_get_def)
  obtain self where r: "ControlSystem_init client config = Inr self"
    and same: "zones_list self = zones_list self1" "zones_by_id self = zones_by_id self1"
  proof (cases "map_of config ''dhw''")
    case None
    then have "ControlSystem_init client config = Inr self1"
      by (simp add: init)
    then show ?thesis using that by blast
  next
    case (Some d)
    show ?thesis
    proof (cases "truthy d")
      case True
      with dhw Some obtain hw where hw: "HotWater_init client d = Inr hw" by blast
      have "ControlSystem_init client config = Inr (self1\<lparr>hotwater := Some hw\<rparr>)"
        using Some True hw by (simp add: init)
      then show ?thesis using that [of "self1\<lparr>hotwater := Some hw\<rparr>"] by simp
    next
      case False
      have "ControlSystem_init client config = Inr self1"
        using Some False by (simp add: init)
      then show ?thesis using that by blast
    qed
  qed
  show ?thesis
    using r same l idx len m by auto
qed


text \<open>The example config, with two zones and a hot-water block, built by the example client.\<close>

lemma example_init: "ControlSystem_init example_client example_config = Inr example_tcs"
  by (simp add: ControlSystem_init_def example_client_def example_config_def example_tcs_def
      example_Zone_init_def example_HotWater_init_def dict_get_def)

theorem init_zone_index_witness:
  "ControlSystem_init example_client example_config = Inr example_tcs
   \<and> length (zones_list example_tcs) = 2
   \<and> map zoneId (zones_list example_tcs) = [''3432522'', ''3432521'']
   \<and> count_list (map fst (zones_by_id example_tcs)) ''3432522'' = 1
   \<and> count_list (map fst (zones_by_id example_tcs)) ''3432521'' = 1"
proof -
  have 1: "map_of example_config ''systemId'' = Some (JStr ''3432579'')" "truthy (JStr ''3432579'')"
    by (simp_all add: example_config_def)
  have 2: "map_of example_config ''zones'' = Some (JList
      [JObj [(''zoneId'', JStr ''3432522''), (''name'', JStr ''Lounge'')],
       JObj [(''zoneId'', JStr ''3432521''), (''name'', JStr ''Bedroom'')]])"
    by (simp add: example_config_def)
  have 3: "\<forall>zc \<in> set [JObj [(''zoneId'', JStr ''3432522''), (''name'', JStr ''Lounge'')],
       JObj [(''zoneId'', JStr ''3432521''), (''name'', JStr ''Bedroom'')]].
       \<exists>z. Zone_init example_client zc = Inr z"
    by (simp add: example_client_def example_Zone_init_def dict_get_def)
  have 4: "\<forall>d. map_of example_config ''dhw'' = Some d \<and> truthy d \<longrightarrow> (\<exists>hw. HotWater_init example_client d = Inr hw)"
    by (simp add: example_config_def example_client_def example_HotWater_init_def dict_get_def)
  have 5: "set (map fst example_config) \<inter> set instance_attributes = {}"
    by (simp add: example_config_def instance_attributes_def)
  from init_zone_index [OF 1 2 3 4 5] obtain self
    where r: "ControlSystem_init example_client example_config = Inr self"
      and l: "length (zones_list self) = length [JObj [(''zoneId'', JStr ''3432522''), (''name'', JStr ''Lounge'')],
       JObj [(''zoneId'', JStr ''3432521''), (''name'', JStr ''Bedroom'')]]"
      and c: "\<forall>z \<in> set (zones_list self). count_list (map fst (zones_by_id self)) (zoneId z) = 1"
    by blast
  from r have self: "self = example_tcs"
    by (simp add: example_init)
  have ids: "map zoneId (zones_list example_tcs) = [''3432522'', ''3432521'']"
    by (simp add: example_tcs_def)
  have "\<forall>i \<in> set (map zoneId (zones_list example_tcs)). count_list (map fst (zones_by_id example_tcs)) i = 1"
    using c unfolding self by simp
  then have "count_list (map fst (zones_by_id example_tcs)) ''3432522'' = 1"
    "count_list (map fst (zones_by_id example_tcs)) ''3432521'' = 1"
    unfolding ids by simp_all
  with l ids example_init show ?thesis
    unfolding self by simp
qed

subsection \<open>The temperature report\<close>

lemma zone_status_refreshed:
  assumes "map_of (setpointStatus z) ''targetHeatTemperature'' = Some sp"
    and "map_of (temperatureStatus z) ''isAvailable'' = Some a"
    and "truthy a \<longrightarrow> map_of (temperatureStatus z) ''temperature'' = Some t"
  shows "zone_status z = Inr (JObj [(''thermostat'', JStr ''EMEA_ZONE''), (''id'', JStr (zoneId z)),
            (''name'', JStr (name z)), (''temp'', if truthy a then t else JNull), (''setpoint'', sp)])"
  using assms by (simp add: zone_status_def dict_get_def)

lemma zone_statuses_map:
  assumes "\<forall>z \<in> set zs. \<exists>s. zone_status z = Inr s"
  shows "zone_statuses zs = Inr (map (\<lambda>z. projr (zone_status z)) zs)"
  using assms by (induction zs) auto

text \<open>
  C3. \<^verbatim>\<open>temperatures\<close> refreshes the status first and reports the refreshed system \<open>self'\<close>.
  When the refresh has filled the status of every zone (a target, an availability and, for
  an available zone, a temperature that is not null) and a temperature for the hot water,
  the result is the hot-water entry, if there is a hot-water unit, followed by one entry
  for each zone in the order of the zone list. The hot-water entry has the thermostat
  \<^verbatim>\<open>DOMESTIC_HOT_WATER\<close>, the identifier of the unit, an empty name and an empty string as its
  setpoint; the entry of a zone has the thermostat \<^verbatim>\<open>EMEA_ZONE\<close>, the identifier and the name
  of the zone, its target as the setpoint, and a temperature that is null exactly when the
  zone reports that it is not available.
\<close>

theorem temperatures_report:
  assumes refresh: "location_status client self w = (Inr self', w')"
    and zones: "\<forall>z \<in> set (zones_list self'). \<exists>sp a.
        map_of (setpointStatus z) ''targetHeatTemperature'' = Some sp
      \<and> map_of (temperatureStatus z) ''isAvailable'' = Some a
      \<and> (truthy a \<longrightarrow> (\<exists>t. map_of (temperatureStatus z) ''temperature'' = Some t \<and> t \<noteq> JNull))"
    and dhw: "\<forall>hw. hotwater self' = Some hw \<longrightarrow> (\<exists>t. map_of (temperatureStatus hw) ''temperature'' = Some t)"
  shows "\<exists>ds zs. temperatures client self w = (Inr (ds @ zs), w')
      \<and> (hotwater self' = None \<longrightarrow> ds = [])
      \<and> (\<forall>hw. hotwater self' = Some hw \<longrightarrow>
            (\<exists>t. ds = [JObj [(''thermostat'', JStr ''DOMESTIC_HOT_WATER''), (''id'', JStr (dhwId hw)),
                              (''name'', JStr []), (''temp'', t), (''setpoint'', JStr [])]]))
      \<and> length zs = length (zones_list self')
      \<and> (\<forall>i < length zs. \<exists>temp sp a.
            zs ! i = JObj [(''thermostat'', JStr ''EMEA_ZONE''), (''id'', JStr (zoneId (zones_list self' ! i))),
                           (''name'', JStr (name (zones_list self' ! i))), (''temp'', temp), (''setpoint'', sp)]
          \<and> map_of (setpointStatus (zones_list self' ! i)) ''targetHeatTemperature'' = Some sp
          \<and> map_of (temperatureStatus (zones_list self' ! i)) ''isAvailable'' = Some a
          \<and> (temp = JNull \<longleftrightarrow> \<not> truthy a))"
proof -
  define ds where "ds = (case hotwater self' of None \<Rightarrow> []
     | Some hw \<Rightarrow> [JObj [(''thermostat'', JStr ''DOMESTIC_HOT_WATER''), (''id'', JStr (dhwId hw)),
          (''name'', JStr []), (''temp'', the (map_of (temperatureStatus hw) ''temperature'')),
          (''setpoint'', JStr [])]])"
  define zs where "zs = map (\<lambda>z. projr (zone_status z)) (zones_list self')"
  have d: "(case hotwater self' of None \<Rightarrow> Inr []
       | Some hw \<Rightarrow> (case dhw_status hw of Inl e \<Rightarrow> Inl e | Inr s \<Rightarrow> Inr [s])) = Inr ds"
  proof (cases "hotwater self'")
    case None
    then show ?thesis by (simp add: ds_def)
  next
    case (Some hw)
    with dhw obtain t where "map_of (temperatureStatus hw) ''temperature'' = Some t" by blast
    with Some show ?thesis by (simp add: ds_def dhw_status_def dict_get_def)
  qed
  have ok: "\<forall>z \<in> set (zones_list self'). \<exists>s. zone_status z = Inr s"
  proof
    fix z assume "z \<in> set (zones_list self')"
    with zones obtain sp a where sp: "map_of (setpointStatus z) ''targetHeatTemperature'' = Some sp"
      and a: "map_of (temperatureStatus z) ''isAvailable'' = Some a"
      and t: "truthy a \<longrightarrow> (\<exists>t. map_of (temperatureStatus z) ''temperature'' = Some t \<and> t \<noteq> JNull)"
      by blast
    from t obtain t' where "truthy a \<longrightarrow> map_of (temperatureStatus z) ''temperature'' = Some t'"
      by blast
    from zone_status_refreshed [OF sp a this] show "\<exists>s. zone_status z = Inr s" by (rule exI)
  qed
  have z: "zone_statuses (zones_list self') = Inr zs"
    unfolding zs_def by (rule zone_statuses_map [OF ok])
  have r: "temperatures client self w = (Inr (ds @ zs), w')"
    by (simp add: temperatures_def refresh d z)
  have d0: "hotwater self' = None \<longrightarrow> ds = []"
    by (simp add: ds_def)
  have d1: "\<forall>hw. hotwater self' = Some hw \<longrightarrow>
            (\<exists>t. ds = [JObj [(''thermostat'', JStr ''DOMESTIC_HOT_WATER''), (''id'', JStr (dhwId hw)),
                              (''name'', JStr []), (''temp'', t), (''setpoint'', JStr [])]])"
    by (simp add: ds_def)
  have len: "length zs = length (zones_list self')"
    by (simp add: zs_def)
  have each: "\<forall>i < length zs. \<exists>temp sp a.
            zs ! i = JObj [(''thermostat'', JStr ''EMEA_ZONE''), (''id'', JStr (zoneId (zones_list self' ! i))),
                           (''name'', JStr (name (zones_list self' ! i))), (''temp'', temp), (''setpoint'', sp)]
          \<and> map_of (setpointStatus (zones_list self' ! i)) ''targetHeatTemperature'' = Some sp
          \<and> map_of (temperatureStatus (zones_list self' ! i)) ''isAvailable'' = Some a
          \<and> (temp = JNull \<longleftrightarrow> \<not> truthy a)"
  proof (intro allI impI)
    fix i assume i: "i < length zs"
    define z where "z = zones_list self' ! i"
    from i len have "z \<in> set (zones_list self')"
      by (simp add: z_def)
    with zones obtain sp a where sp: "map_of (setpointStatus z) ''targetHeatTemperature'' = Some sp"
      and a: "map_of (temperatureStatus z) ''isAvailable'' = Some a"
      and t: "truthy a \<longrightarrow> (\<exists>t. map_of (temperatureStatus z) ''temperature'' = Some t \<and> t \<noteq> JNull)"
      by blast
    from t obtain t' where t': "truthy a \<longrightarrow> map_of (temperatureStatus z) ''temperature'' = Some t' \<and> t' \<noteq> JNull"
      by blast
    then have "truthy a \<longrightarrow> map_of (temperatureStatus z) ''temperature'' = Some t'"
      by blast
    note s = zone_status_refreshed [OF sp a this]
    have "zs ! i = projr (zone_status z)"
      using i len by (simp add: zs_def z_def)
    with s have e: "zs ! i = JObj [(''thermostat'', JStr ''EMEA_ZONE''), (''id'', JStr (zoneId z)),
            (''name'', JStr (name z)), (''temp'', if truthy a then t' else JNull), (''setpoint'', sp)]"
      by simp
    have n: "((if truthy a then t' else JNull) = JNull) \<longleftrightarrow> \<not> truthy a"
      using t' by auto
    show "\<exists>temp sp a.
            zs ! i = JObj [(''thermostat'', JStr ''EMEA_ZONE''), (''id'', JStr (zoneId (zones_list self' ! i))),
                           (''name'', JStr (name (zones_list self' ! i))), (''temp'', temp), (''setpoint'', sp)]
          \<and> map_of (setpointStatus (zones_list self' ! i)) ''targetHeatTemperature'' = Some sp
          \<and> map_of (temperatureStatus (zones_list self' ! i)) ''isAvailable'' = Some a
          \<and> (temp = JNull \<longleftrightarrow> \<not> truthy a)"
    proof (intro exI conjI)
      show "zs ! i = JObj [(''thermostat'', JStr ''EMEA_ZONE''), (''id'', JStr (zoneId (zones_list self' ! i))),
            (''name'', JStr (name (zones_list self' ! i))), (''temp'', if truthy a then t' else JNull),
            (''setpoint'', sp)]"
        using e by (simp only: z_def)
      show "map_of (setpointStatus (zones_list self' ! i)) ''targetHeatTemperature'' = Some sp"
        using sp by (simp only: z_def)
      show "map_of (temperatureStatus (zones_list self' ! i)) ''isAvailable'' = Some a"
        using a by (simp only: z_def)
      show "((if truthy a then t' else JNull) = JNull) \<longleftrightarrow> \<not> truthy a"
        by (rule n)
    qed
  qed
  show ?thesis
  proof (intro exI conjI)
    show "temperatures client self w = (Inr (ds @ zs), w')" by (rule r)
    show "hotwater self' = None \<longrightarrow> ds = []" by (rule d0)
    show "\<forall>hw. hotwater self' = Some hw \<longrightarrow>
            (\<exists>t. ds = [JObj [(''thermostat'', JStr ''DOMESTIC_HOT_WATER''), (''id'', JStr (dhwId hw)),
                              (''name'', JStr []), (''temp'', t), (''setpoint'', JStr [])]])"
      by (rule d1)
    show "length zs = length (zones_list self')" by (rule len)
    show "\<forall>i < length zs. \<exists>temp sp a.
            zs ! i = JObj [(''thermostat'', JStr ''EMEA_ZONE''), (''id'', JStr (zoneId (zones_list self' ! i))),
                           (''name'', JStr (name (zones_list self' ! i))), (''temp'', temp), (''setpoint'', sp)]
          \<and> map_of (setpointStatus (zones_list self' ! i)) ''targetHeatTemperature'' = Some sp
          \<and> map_of (temperatureStatus (zones_list self' ! i)) ''isAvailable'' = Some a
          \<and> (temp = JNull \<longleftrightarrow> \<not> truthy a)"
      by (rule each)
  qed
qed


text \<open>
  The example system, two zones and hot water: three entries, the hot water first, and a
  null temperature for the bedroom, which is not available.
\<close>

lemma example_refreshed:
  "example_refresh example_tcs = \<lparr>
     attrs = [(''systemId'', JStr ''3432579''), (''modelType'', JStr ''EvoTouch''),
              (''dhw'', JObj [(''dhwId'', JStr ''3933910'')])],
     zones_list =
       [\<lparr>zoneId = ''3432522'', temperatureStatus = [(''temperature'', JFloat 19.5), (''isAvailable'', JBool True)],
         name = ''Lounge'',
         setpointStatus = [(''targetHeatTemperature'', JFloat 21), (''setpointMode'', JStr ''FollowSchedule'')]\<rparr>,
        \<lparr>zoneId = ''3432521'', temperatureStatus = [(''isAvailable'', JBool False)],
         name = ''Bedroom'',
         setpointStatus = [(''targetHeatTemperature'', JFloat 21), (''setpointMode'', JStr ''FollowSchedule'')]\<rparr>],
     zones = zones (example_refresh example_tcs),
     zones_by_id = zones_by_id (example_refresh example_tcs),
     hotwater = Some \<lparr>zoneId = ''3933910'',
       temperatureStatus = [(''temperature'', JFloat 50), (''isAvailable'', JBool True)], dhwId = ''3933910''\<rparr>\<rparr>"
  by (simp add: example_refresh_def example_tcs_def example_refresh_zone_def)

theorem temperatures_report_witness:
  "temperatures example_client example_tcs [] =
     (Inr [JObj [(''thermostat'', JStr ''DOMESTIC_HOT_WATER''), (''id'', JStr ''3933910''), (''name'', JStr []),
                 (''temp'', JFloat 50), (''setpoint'', JStr [])],
           JObj [(''thermostat'', JStr ''EMEA_ZONE''), (''id'', JStr ''3432522''), (''name'', JStr ''Lounge''),
                 (''temp'', JFloat 19.5), (''setpoint'', JFloat 21)],
           JObj [(''thermostat'', JStr ''EMEA_ZONE''), (''id'', JStr ''3432521''), (''name'', JStr ''Bedroom''),
                 (''temp'', JNull), (''setpoint'', JFloat 21)]], [])"
proof -
  define self' where "self' = example_refresh example_tcs"
  have 1: "location_status example_client example_tcs [] = (Inr self', [])"
    by (simp add: example_client_def self'_def)
  have zl: "zones_list self' =
       [\<lparr>zoneId = ''3432522'', temperatureStatus = [(''temperature'', JFloat 19.5), (''isAvailable'', JBool True)],
         name = ''Lounge'',
         setpointStatus = [(''targetHeatTemperature'', JFloat 21), (''setpointMode'', JStr ''FollowSchedule'')]\<rparr>,
        \<lparr>zoneId = ''3432521'', temperatureStatus = [(''isAvailable'', JBool False)],
         name = ''Bedroom'',
         setpointStatus = [(''targetHeatTemperature'', JFloat 21), (''setpointMode'', JStr ''FollowSchedule'')]\<rparr>]"
    unfolding self'_def by (subst example_refreshed) simp
  have hw: "hotwater self' = Some \<lparr>zoneId = ''3933910'',
       temperatureStatus = [(''temperature'', JFloat 50), (''isAvailable'', JBool True)], dhwId = ''3933910''\<rparr>"
    unfolding self'_def by (subst example_refreshed) simp
  have 2: "\<forall>z \<in> set (zones_list self'). \<exists>sp a.
        map_of (setpointStatus z) ''targetHeatTemperature'' = Some sp
      \<and> map_of (temperatureStatus z) ''isAvailable'' = Some a
      \<and> (truthy a \<longrightarrow> (\<exists>t. map_of (temperatureStatus z) ''temperature'' = Some t \<and> t \<noteq> JNull))"
    by (simp add: zl)
  have 3: "\<forall>hw. hotwater self' = Some hw \<longrightarrow> (\<exists>t. map_of (temperatureStatus hw) ''temperature'' = Some t)"
    by (simp add: hw)
  from temperatures_report [OF 1 2 3] obtain ds zs
    where r: "temperatures example_client example_tcs [] = (Inr (ds @ zs), [])"
      and d: "\<forall>hw. hotwater self' = Some hw \<longrightarrow>
            (\<exists>t. ds = [JObj [(''thermostat'', JStr ''DOMESTIC_HOT_WATER''), (''id'', JStr (dhwId hw)),
                              (''name'', JStr []), (''temp'', t), (''setpoint'', JStr [])]])"
      and l: "length zs = length (zones_list self')"
    by (elim exE conjE)
  have ev: "temperatures example_client example_tcs [] =
     (Inr [JObj [(''thermostat'', JStr ''DOMESTIC_HOT_WATER''), (''id'', JStr ''3933910''), (''name'', JStr []),
                 (''temp'', JFloat 50), (''setpoint'', JStr [])],
           JObj [(''thermostat'', JStr ''EMEA_ZONE''), (''id'', JStr ''3432522''), (''name'', JStr ''Lounge''),
                 (''temp'', JFloat 19.5), (''setpoint'', JFloat 21)],
           JObj [(''thermostat'', JStr ''EMEA_ZONE''), (''id'', JStr ''3432521''), (''name'', JStr ''Bedroom''),
                 (''temp'', JNull), (''setpoint'', JFloat 21)]], [])"
    by (simp add: temperatures_def 1 hw zl dhw_status_def zone_status_def dict_get_def)
  from r l show ?thesis
    by (simp only: ev)
qed

subsection \<open>Restoring schedules\<close>

lemma restore_entries_append:
  "restore_entries client self (xs @ ys) w =
     (case restore_entries client self xs w of
        (Inl e, w') \<Rightarrow> (Inl e, w')
      | (Inr u, w') \<Rightarrow> restore_entries client self ys w')"
proof (induction xs arbitrary: w)
  case Nil
  then show ?case by simp
next
  case (Cons x xs)
  obtain zone_id zone_schedule where x: "x = (zone_id, zone_schedule)"
    by (cases x)
  show ?case
    by (simp add: x Cons.IH split: prod.splits sum.splits)
qed

lemma restore_entry_unmatched:
  assumes "subscript entry ''name'' = Inr n"
    and "subscript entry ''schedule'' = Inr schedule"
    and "\<not> is_hotwater self zone_id"
    and "map_of (zones_by_id self) zone_id = None"
  shows "restore_entry client self zone_id entry w = (Inl (KeyError zone_id), w)"
  using assms
  by (simp add: restore_entry_def is_hotwater_def dict_get_def split: option.splits)

text \<open>
  C8. Let the backup hold an entry (with its \<^verbatim>\<open>name\<close> and \<^verbatim>\<open>schedule\<close>) whose identifier is neither
  the hot water's nor a key of \<^verbatim>\<open>zones_by_id\<close>, after the entries \<open>before\<close> and ahead of the
  entries \<open>after\<close>. The restore runs the entries \<open>before\<close> in their order; if one of them
  raises, that is the outcome, and otherwise \<^verbatim>\<open>self.zones_by_id[zone_id]\<close> raises
  \<^verbatim>\<open>KeyError(zone_id)\<close> at the entry. The world it leaves is the one the entries \<open>before\<close> left:
  no entry of \<open>after\<close> is applied, and what \<open>before\<close> applied stays applied. The restore
  never returns normally.
\<close>

theorem restore_unmatched_identifier:
  assumes backup: "read_json_file client filename w = (Inr (JObj (before @ (zone_id, entry) # after)), w0)"
    and name: "subscript entry ''name'' = Inr n"
    and schedule: "subscript entry ''schedule'' = Inr s"
    and no_dhw: "\<not> is_hotwater self zone_id"
    and no_zone: "map_of (zones_by_id self) zone_id = None"
  shows "zone_schedules_restore client self filename w =
           (case restore_entries client self before w0 of
              (Inl e, w') \<Rightarrow> (Inl e, w')
            | (Inr u, w') \<Rightarrow> (Inl (KeyError zone_id), w'))
       \<and> (\<forall>w'. restore_entries client self before w0 = (Inr (), w') \<longrightarrow>
             zone_schedules_restore client self filename w = (Inl (KeyError zone_id), w'))
       \<and> (\<forall>w'. zone_schedules_restore client self filename w \<noteq> (Inr (), w'))"
proof -
  have one: "restore_entries client self ((zone_id, entry) # after) w' = (Inl (KeyError zone_id), w')" for w'
    by (simp add: restore_entry_unmatched [OF name schedule no_dhw no_zone])
  have eq: "zone_schedules_restore client self filename w =
           (case restore_entries client self before w0 of
              (Inl e, w') \<Rightarrow> (Inl e, w')
            | (Inr u, w') \<Rightarrow> (Inl (KeyError zone_id), w'))"
    by (simp add: zone_schedules_restore_def backup restore_entries_append one del: restore_entries.simps
        split: prod.splits sum.splits)
  show ?thesis
  proof (intro conjI allI impI)
    show "zone_schedules_restore client self filename w =
           (case restore_entries client self before w0 of
              (Inl e, w') \<Rightarrow> (Inl e, w')
            | (Inr u, w') \<Rightarrow> (Inl (KeyError zone_id), w'))"
      by (rule eq)
  next
    fix w' assume "restore_entries client self before w0 = (Inr (), w')"
    then show "zone_schedules_restore client self filename w = (Inl (KeyError zone_id), w')"
      by (simp add: eq)
  next
    fix w'
    show "zone_schedules_restore client self filename w \<noteq> (Inr (), w')"
      by (simp add: eq split: prod.splits sum.splits)
  qed
qed

text \<open>
  The example backup holds the lounge, an attic that the system does not have, and the
  bedroom: the lounge's schedule is set, the attic raises, the bedroom is not reached.
\<close>

theorem restore_unmatched_identifier_witness:
  "zone_schedules_restore example_client example_tcs ''backup.json'' [] =
     (Inl (KeyError ''9999999''), [Scheduled ''3432522'' (JObj [(''dailySchedules'', JList [])])])"
proof -
  have f: "read_json_file example_client ''backup.json'' [] = (Inr (JObj
      ([(''3432522'', JObj [(''name'', JStr ''Lounge''), (''schedule'', JObj [(''dailySchedules'', JList [])])])]
       @ (''9999999'', JObj [(''name'', JStr ''Attic''), (''schedule'', JObj [(''dailySchedules'', JList [])])])
       # [(''3432521'', JObj [(''name'', JStr ''Bedroom''), (''schedule'', JObj [(''dailySchedules'', JList [])])])])), [])"
    by (simp add: example_client_def example_backup_def)
  have n: "subscript (JObj [(''name'', JStr ''Attic''), (''schedule'', JObj [(''dailySchedules'', JList [])])]) ''name''
      = Inr (JStr ''Attic'')"
    by (simp add: dict_get_def)
  have s: "subscript (JObj [(''name'', JStr ''Attic''), (''schedule'', JObj [(''dailySchedules'', JList [])])]) ''schedule''
      = Inr (JObj [(''dailySchedules'', JList [])])"
    by (simp add: dict_get_def)
  have h: "\<not> is_hotwater example_tcs ''9999999''"
    by (simp add: is_hotwater_def example_tcs_def)
  have z: "map_of (zones_by_id example_tcs) ''9999999'' = None"
    by (simp add: example_tcs_def)
  have b: "restore_entries example_client example_tcs
      [(''3432522'', JObj [(''name'', JStr ''Lounge''), (''schedule'', JObj [(''dailySchedules'', JList [])])])] []
     = (Inr (), [Scheduled ''3432522'' (JObj [(''dailySchedules'', JList [])])])"
    by (simp add: restore_entry_def example_tcs_def example_client_def dict_get_def)
  from restore_unmatched_identifier [OF f n s h z, THEN conjunct2, THEN conjunct1, rule_format, OF b]
  show ?thesis .
qed

section \<open>Properties of the legacy client\<close>

subsection \<open>Waiting for the task\<close>

lemma wait_for_task_returns:
  assumes "wait_for_task self task_id m s = Some (out, k, t)"
  shows "m < k \<and> t = s + (k - 1 - m)
     \<and> (\<forall>i. m \<le> i \<and> i < k - 1 \<longrightarrow> pending (EvohomeClient__get_task_status self task_id i))
     \<and> (case out of
           Inl e \<Rightarrow> EvohomeClient__get_task_status self task_id (k - 1) = Inl e
         | Inr u \<Rightarrow> EvohomeClient__get_task_status self task_id (k - 1) = Inr (JStr ''Succeeded''))"
proof -
  define P where "P = (\<lambda>(self' :: legacy) (tid :: json) m s (r :: (exn + unit) \<times> nat \<times> nat).
     self' = self \<and> tid = task_id \<longrightarrow>
     (case r of (out, k, t) \<Rightarrow> m < k \<and> t = s + (k - 1 - m)
     \<and> (\<forall>i. m \<le> i \<and> i < k - 1 \<longrightarrow> pending (EvohomeClient__get_task_status self task_id i))
     \<and> (case out of
           Inl e \<Rightarrow> EvohomeClient__get_task_status self task_id (k - 1) = Inl e
         | Inr u \<Rightarrow> EvohomeClient__get_task_status self task_id (k - 1) = Inr (JStr ''Succeeded''))))"
  have "P self task_id m s (out, k, t)"
  proof (rule wait_for_task.raw_induct [where P = P, OF _ assms])
    fix f self' tid m s r
    assume IH: "\<And>self' tid m s r. f self' tid m s = Some r \<Longrightarrow> P self' tid m s r"
      and eq: "(case EvohomeClient__get_task_status self' tid m of
          Inl e \<Rightarrow> Some (Inl e, Suc m, s)
        | Inr state \<Rightarrow> if state \<noteq> JStr ''Succeeded'' then f self' tid (Suc m) (s + 1)
            else Some (Inr (), Suc m, s)) = Some r"
    show "P self' tid m s r"
    proof (cases "EvohomeClient__get_task_status self' tid m")
      case (Inl e)
      with eq have "r = (Inl e, Suc m, s)" by simp
      with Inl show ?thesis by (auto simp: P_def)
    next
      case (Inr state)
      show ?thesis
      proof (cases "state = JStr ''Succeeded''")
        case True
        with eq Inr have "r = (Inr (), Suc m, s)" by simp
        with Inr True show ?thesis by (auto simp: P_def)
      next
        case False
        with eq Inr have "f self' tid (Suc m) (s + 1) = Some r" by simp
        then have ih: "P self' tid (Suc m) (s + 1) r" by (rule IH)
        obtain out k t where r: "r = (out, k, t)" by (cases r)
        have pm: "self' = self \<Longrightarrow> tid = task_id \<Longrightarrow> pending (EvohomeClient__get_task_status self task_id m)"
          using Inr False by (simp add: pending_def)
        show ?thesis
          unfolding P_def r
        proof (intro impI, simp only: prod.case, intro conjI allI impI)
          assume a: "self' = self \<and> tid = task_id"
          with ih r have b: "Suc m < k" "t = s + 1 + (k - 1 - Suc m)"
            "\<forall>i. Suc m \<le> i \<and> i < k - 1 \<longrightarrow> pending (EvohomeClient__get_task_status self task_id i)"
            "(case out of
               Inl e \<Rightarrow> EvohomeClient__get_task_status self task_id (k - 1) = Inl e
             | Inr u \<Rightarrow> EvohomeClient__get_task_status self task_id (k - 1) = Inr (JStr ''Succeeded''))"
            by (simp_all add: P_def)
          show "m < k" using b(1) by simp
          show "t = s + (k - 1 - m)" using b(1,2) by simp
          show "(case out of
               Inl e \<Rightarrow> EvohomeClient__get_task_status self task_id (k - 1) = Inl e
             | Inr u \<Rightarrow> EvohomeClient__get_task_status self task_id (k - 1) = Inr (JStr ''Succeeded''))"
            by (rule b(4))
          fix i assume i: "m \<le> i \<and> i < k - 1"
          show "pending (EvohomeClient__get_task_status self task_id i)"
          proof (cases "i = m")
            case True
            then show ?thesis using pm a by simp
          next
            case False
            with i have "Suc m \<le> i \<and> i < k - 1" by simp
            with b(3) show ?thesis by blast
          qed
        qed
      qed
    qed
  qed
  then show ?thesis by (simp add: P_def)
qed

lemma wait_for_task_pending:
  assumes "\<forall>i < n. pending (EvohomeClient__get_task_status self task_id (m + i))"
  shows "wait_for_task self task_id m s = wait_for_task self task_id (m + n) (s + n)"
  using assms
proof (induction n arbitrary: m s)
  case 0
  then show ?case by simp
next
  case (Suc n)
  from Suc.prems have p0: "pending (EvohomeClient__get_task_status self task_id m)"
    by (metis add.right_neutral zero_less_Suc)
  from Suc.prems have "\<forall>i < n. pending (EvohomeClient__get_task_status self task_id (Suc m + i))"
    by (metis Suc_less_eq add_Suc_right add_Suc)
  from Suc.IH [OF this] have ih: "wait_for_task self task_id (Suc m) (s + 1) = wait_for_task self task_id (m + Suc n) (s + Suc n)"
    by simp
  from p0 have "wait_for_task self task_id m s = wait_for_task self task_id (Suc m) (s + 1)"
    by (subst wait_for_task.simps) (auto simp: pending_def split: sum.splits)
  with ih show ?case by simp
qed

lemma wait_for_task_never:
  assumes "\<forall>i. pending (EvohomeClient__get_task_status self task_id i)"
  shows "wait_for_task self task_id 0 0 = None"
proof (cases "wait_for_task self task_id 0 0")
  case None
  then show ?thesis .
next
  case (Some r)
  obtain out k t where r: "r = (out, k, t)" by (cases r)
  from wait_for_task_returns [OF Some [unfolded r]] assms [rule_format, of "k - 1"]
  show ?thesis
    by (cases out) (auto simp: pending_def)
qed


lemma wait_for_task_stops:
  assumes "\<forall>i < n. pending (EvohomeClient__get_task_status self task_id i)"
    and "\<not> pending (EvohomeClient__get_task_status self task_id n)"
  shows "wait_for_task self task_id 0 0 =
     Some (case EvohomeClient__get_task_status self task_id n of Inl e \<Rightarrow> Inl e | Inr state \<Rightarrow> Inr (), Suc n, n)"
proof -
  from assms(1) have "wait_for_task self task_id 0 0 = wait_for_task self task_id (0 + n) (0 + n)"
    by (intro wait_for_task_pending) simp
  also have "\<dots> = Some (case EvohomeClient__get_task_status self task_id n of Inl e \<Rightarrow> Inl e | Inr state \<Rightarrow> Inr (), Suc n, n)"
    using assms(2) by (subst wait_for_task.simps) (auto simp: pending_def split: sum.splits)
  finally show ?thesis .
qed

lemma put_and_wait_returns:
  assumes "put_and_wait self url data = Some (Inr (), k, t)"
  shows "\<exists>task_id. wait_for_task self task_id 0 0 = Some (Inr (), k, t)"
  using assms by (auto simp: put_and_wait_def split: sum.splits)

text \<open>
  C9. The three writes of the legacy client (\<^verbatim>\<open>_set_status\<close>, \<^verbatim>\<open>_set_heat_setpoint\<close>, \<^verbatim>\<open>_set_dhw\<close>)
  end with the same loop, \<open>wait_for_task\<close>, started with no check made and no second slept.
  \<^item> The loop returns normally only after a check that reported \<^verbatim>\<open>Succeeded\<close>; every check
    before it was pending, and one second was slept after each of those.
  \<^item> There is no bound on the checks: for every \<open>n\<close>, after \<open>n\<close> pending checks and a check
    that reports \<^verbatim>\<open>Succeeded\<close> the loop returns, having made \<open>n + 1\<close> checks and slept \<open>n\<close>
    seconds; after \<open>n\<close> pending checks and a check that raises, it raises that error.
  \<^item> When every check is pending, the loop never returns.
  \<^item> Once the \<^verbatim>\<open>put\<close> is answered with a task, a write is this loop, and a write that returns
    normally returned from this loop.
\<close>

theorem write_waits_for_succeeded:
  "(wait_for_task self task_id 0 0 = Some (Inr (), k, t) \<longrightarrow>
      0 < k \<and> t = k - 1
      \<and> EvohomeClient__get_task_status self task_id (k - 1) = Inr (JStr ''Succeeded'')
      \<and> (\<forall>i < k - 1. pending (EvohomeClient__get_task_status self task_id i)))
   \<and> ((\<forall>i < n. pending (EvohomeClient__get_task_status self task_id i))
        \<and> EvohomeClient__get_task_status self task_id n = Inr (JStr ''Succeeded'') \<longrightarrow>
      wait_for_task self task_id 0 0 = Some (Inr (), Suc n, n))
   \<and> ((\<forall>i < n. pending (EvohomeClient__get_task_status self task_id i))
        \<and> EvohomeClient__get_task_status self task_id n = Inl e \<longrightarrow>
      wait_for_task self task_id 0 0 = Some (Inl e, Suc n, n))
   \<and> ((\<forall>i. pending (EvohomeClient__get_task_status self task_id i)) \<longrightarrow>
      wait_for_task self task_id 0 0 = None)
   \<and> (requests_put self url data = Inr response \<and> EvohomeClient__get_task_id response = Inr task_id \<longrightarrow>
      put_and_wait self url data = wait_for_task self task_id 0 0)
   \<and> (EvohomeClient__set_status self status until = Some (Inr (), k, t) \<longrightarrow>
      (\<exists>task. wait_for_task self task 0 0 = Some (Inr (), k, t)))
   \<and> (EvohomeClient__set_heat_setpoint self zone data = Some (Inr (), k, t) \<longrightarrow>
      (\<exists>task. wait_for_task self task 0 0 = Some (Inr (), k, t)))
   \<and> (EvohomeClient__set_dhw self st mode next_time = Some (Inr (), k, t) \<longrightarrow>
      (\<exists>task. wait_for_task self task 0 0 = Some (Inr (), k, t)))"
proof (intro conjI impI)
  assume a: "wait_for_task self task_id 0 0 = Some (Inr (), k, t)"
  note r = wait_for_task_returns [OF a]
  from r show "0 < k" by simp
  from r show "t = k - 1" by simp
  from r show "EvohomeClient__get_task_status self task_id (k - 1) = Inr (JStr ''Succeeded'')" by simp
  from r show "\<forall>i < k - 1. pending (EvohomeClient__get_task_status self task_id i)" by simp
next
  assume "(\<forall>i < n. pending (EvohomeClient__get_task_status self task_id i))
        \<and> EvohomeClient__get_task_status self task_id n = Inr (JStr ''Succeeded'')"
  then show "wait_for_task self task_id 0 0 = Some (Inr (), Suc n, n)"
    using wait_for_task_stops [of n self task_id] by (simp add: pending_def)
next
  assume "(\<forall>i < n. pending (EvohomeClient__get_task_status self task_id i))
        \<and> EvohomeClient__get_task_status self task_id n = Inl e"
  then show "wait_for_task self task_id 0 0 = Some (Inl e, Suc n, n)"
    using wait_for_task_stops [of n self task_id] by (simp add: pending_def)
next
  assume "\<forall>i. pending (EvohomeClient__get_task_status self task_id i)"
  then show "wait_for_task self task_id 0 0 = None"
    by (rule wait_for_task_never)
next
  assume "requests_put self url data = Inr response \<and> EvohomeClient__get_task_id response = Inr task_id"
  then show "put_and_wait self url data = wait_for_task self task_id 0 0"
    by (simp add: put_and_wait_def)
next
  assume "EvohomeClient__set_status self status until = Some (Inr (), k, t)"
  then show "\<exists>task. wait_for_task self task 0 0 = Some (Inr (), k, t)"
    by (auto simp: EvohomeClient__set_status_def split: sum.splits dest: put_and_wait_returns)
next
  assume "EvohomeClient__set_heat_setpoint self zone data = Some (Inr (), k, t)"
  then show "\<exists>task. wait_for_task self task 0 0 = Some (Inr (), k, t)"
    by (auto simp: EvohomeClient__set_heat_setpoint_def split: sum.splits dest: put_and_wait_returns)
next
  assume "EvohomeClient__set_dhw self st mode next_time = Some (Inr (), k, t)"
  then show "\<exists>task. wait_for_task self task 0 0 = Some (Inr (), k, t)"
    by (auto simp: EvohomeClient__set_dhw_def Let_def split: sum.splits dest: put_and_wait_returns)
qed

text \<open>
  The first example server: the mode change returns after three checks and two seconds.
  The second: it never returns.
\<close>

lemma example_legacy_status:
  "EvohomeClient__get_task_status example_legacy task n = Inr (JStr (if n < 2 then ''Running'' else ''Succeeded''))"
  "EvohomeClient__get_task_status stuck_legacy task n = Inr (JStr ''Running'')"
  by (simp_all add: EvohomeClient__get_task_status_def example_legacy_def stuck_legacy_def dict_get_def)

theorem write_waits_for_succeeded_witness:
  "EvohomeClient__set_status example_legacy ''Away'' None = Some (Inr (), 3, 2)
   \<and> EvohomeClient__set_status stuck_legacy ''Away'' None = None"
proof -
  have p: "\<forall>i < 2. pending (EvohomeClient__get_task_status example_legacy (JInt 7) i)"
    by (simp add: example_legacy_status pending_def)
  have s: "EvohomeClient__get_task_status example_legacy (JInt 7) 2 = Inr (JStr ''Succeeded'')"
    by (simp add: example_legacy_status)
  have q: "\<forall>i. pending (EvohomeClient__get_task_status stuck_legacy (JInt 7) i)"
    by (simp add: example_legacy_status pending_def)
  note th = write_waits_for_succeeded [of _ "JInt 7"]
  from th [of example_legacy _ _ 2, THEN conjunct2, THEN conjunct1] p s
  have a: "wait_for_task example_legacy (JInt 7) 0 0 = Some (Inr (), Suc 2, 2)"
    by simp
  from th [of stuck_legacy, THEN conjunct2, THEN conjunct2, THEN conjunct2, THEN conjunct1] q
  have b: "wait_for_task stuck_legacy (JInt 7) 0 0 = None"
    by simp
  have c: "EvohomeClient__set_status example_legacy ''Away'' None = wait_for_task example_legacy (JInt 7) 0 0"
    "EvohomeClient__set_status stuck_legacy ''Away'' None = wait_for_task stuck_legacy (JInt 7) 0 0"
    by (simp_all add: EvohomeClient__set_status_def put_and_wait_def EvohomeClient__get_task_id_def
        example_legacy_def stuck_legacy_def dict_get_def)
  from a b show ?thesis
    by (simp add: c)
qed

subsection \<open>The end time of a mode change\<close>

lemma strftime_date:
  "strftime u ''%Y-%m-%d'' = zero_pad 4 (year u) @ ''-'' @ zero_pad 2 (month u) @ ''-'' @ zero_pad 2 (day u)"
  by (simp add: strftime_directive_def)

lemma strftime_full:
  "strftime u ''%Y-%m-%dT%H:%M:%SZ'' = strftime u ''%Y-%m-%d''
     @ ''T'' @ zero_pad 2 (hour u) @ '':'' @ zero_pad 2 (minute u) @ '':'' @ zero_pad 2 (second u) @ ''Z''"
  by (simp add: strftime_directive_def)

lemma zero_pad_2:
  assumes "n < 100"
  shows "zero_pad 2 n = [digit_char (n div 10), digit_char (n mod 10)]"
proof (cases "n < 10")
  case True
  then show ?thesis by (simp add: zero_pad_def digit_char_def)
next
  case False
  from assms have "n div 10 < 10" by simp
  with False show ?thesis by (simp add: zero_pad_def)
qed

lemma digit_char_inj: "a < 10 \<Longrightarrow> b < 10 \<Longrightarrow> digit_char a = digit_char b \<Longrightarrow> a = b"
  using nth_eq_iff_index_eq [of "''0123456789''" a b]
  by (simp add: digit_char_def)

lemma zero_pad_2_inj:
  assumes "a < 100" "b < 100" "zero_pad 2 a = zero_pad 2 b"
  shows "a = b"
proof -
  from assms have "digit_char (a div 10) = digit_char (b div 10)" "digit_char (a mod 10) = digit_char (b mod 10)"
    by (simp_all add: zero_pad_2)
  with assms(1,2) have "a div 10 = b div 10" "a mod 10 = b mod 10"
    by (auto intro: digit_char_inj)
  then show ?thesis
    by (metis div_mult_mod_eq)
qed


lemma time_suffix_inj:
  assumes "hour u < 24" "minute u < 60" "second u < 60"
    and "hour v < 24" "minute v < 60" "second v < 60"
    and eq: "strftime u ''%Y-%m-%dT%H:%M:%SZ'' = strftime v ''%Y-%m-%dT%H:%M:%SZ''"
  shows "hour u = hour v \<and> minute u = minute v \<and> second u = second v"
proof -
  define tu where "tu = ''T'' @ zero_pad 2 (hour u) @ '':'' @ zero_pad 2 (minute u) @ '':'' @ zero_pad 2 (second u) @ ''Z''"
  define tv where "tv = ''T'' @ zero_pad 2 (hour v) @ '':'' @ zero_pad 2 (minute v) @ '':'' @ zero_pad 2 (second v) @ ''Z''"
  have b: "hour u < 100" "minute u < 100" "second u < 100" "hour v < 100" "minute v < 100" "second v < 100"
    using assms(1-6) by simp_all
  have len: "length tu = length tv"
    by (simp add: tu_def tv_def zero_pad_2 b)
  define du where "du = strftime u ''%Y-%m-%d''"
  define dv where "dv = strftime v ''%Y-%m-%d''"
  from eq have "du @ tu = dv @ tv"
    by (simp only: strftime_full tu_def tv_def du_def dv_def)
  with len have "tu = tv"
    by simp
  then have "zero_pad 2 (hour u) = zero_pad 2 (hour v)" "zero_pad 2 (minute u) = zero_pad 2 (minute v)"
    "zero_pad 2 (second u) = zero_pad 2 (second v)"
    by (simp_all add: tu_def tv_def zero_pad_2 b)
  then show ?thesis
    using b by (auto intro: zero_pad_2_inj)
qed

text \<open>
  C10. A mode change of the legacy client with an end time \<open>u\<close> sends, as
  \<^verbatim>\<open>QuickActionNextTime\<close>, the date of \<open>u\<close> followed by \<^verbatim>\<open>T00:00:00Z\<close>: what the full format
  \<^verbatim>\<open>%Y-%m-%dT%H:%M:%SZ\<close> gives for \<open>u\<close> at midnight. Two end times on the same day give the same
  request body, so the time of day is discarded. The zone override (\<^verbatim>\<open>set_temperature\<close>) and
  the hot-water overrides (\<^verbatim>\<open>set_dhw_on\<close>, \<^verbatim>\<open>set_dhw_off\<close>) send \<open>u\<close> in the full format, and two
  end times that give the same text there have the same hour, minute and second.
\<close>

theorem quick_action_time_truncated:
  "(populate_full_data self = Inr location_id \<longrightarrow>
      EvohomeClient__set_status self status (Some u) =
        put_and_wait self (hostname self @ ''/WebAPI/api/evoTouchSystems?locationId='' @ py_str location_id)
          (JObj [(''QuickAction'', JStr status),
                 (''QuickActionNextTime'', JStr (strftime u ''%Y-%m-%d'' @ ''T00:00:00Z''))]))
   \<and> subscript (quick_action_data status (Some u)) ''QuickActionNextTime''
      = Inr (JStr (strftime u ''%Y-%m-%d'' @ ''T00:00:00Z''))
   \<and> strftime u ''%Y-%m-%d'' @ ''T00:00:00Z''
      = strftime (u\<lparr>hour := 0, minute := 0, second := 0\<rparr>) ''%Y-%m-%dT%H:%M:%SZ''
   \<and> (year v = year u \<and> month v = month u \<and> day v = day u \<longrightarrow>
        quick_action_data status (Some v) = quick_action_data status (Some u))
   \<and> subscript (set_temperature_data temperature (Some u)) ''NextTime''
      = Inr (JStr (strftime u ''%Y-%m-%dT%H:%M:%SZ''))
   \<and> dhw_time_until (Some u) = JStr (strftime u ''%Y-%m-%dT%H:%M:%SZ'')
   \<and> (hour u < 24 \<and> minute u < 60 \<and> second u < 60 \<and> hour v < 24 \<and> minute v < 60 \<and> second v < 60
        \<and> (set_temperature_data temperature (Some u) = set_temperature_data temperature (Some v)
            \<or> dhw_time_until (Some u) = dhw_time_until (Some v)) \<longrightarrow>
        hour u = hour v \<and> minute u = minute v \<and> second u = second v)"
proof (intro conjI impI)
  assume "populate_full_data self = Inr location_id"
  then show "EvohomeClient__set_status self status (Some u) =
        put_and_wait self (hostname self @ ''/WebAPI/api/evoTouchSystems?locationId='' @ py_str location_id)
          (JObj [(''QuickAction'', JStr status),
                 (''QuickActionNextTime'', JStr (strftime u ''%Y-%m-%d'' @ ''T00:00:00Z''))])"
    by (simp add: EvohomeClient__set_status_def quick_action_data_def del: strftime.simps)
next
  show "subscript (quick_action_data status (Some u)) ''QuickActionNextTime''
      = Inr (JStr (strftime u ''%Y-%m-%d'' @ ''T00:00:00Z''))"
    by (simp add: quick_action_data_def dict_get_def)
  show "strftime u ''%Y-%m-%d'' @ ''T00:00:00Z''
      = strftime (u\<lparr>hour := 0, minute := 0, second := 0\<rparr>) ''%Y-%m-%dT%H:%M:%SZ''"
    by (simp add: strftime_directive_def zero_pad_def digit_char_def)
  show "subscript (set_temperature_data temperature (Some u)) ''NextTime''
      = Inr (JStr (strftime u ''%Y-%m-%dT%H:%M:%SZ''))"
    by (simp add: set_temperature_data_def dict_get_def)
  show "dhw_time_until (Some u) = JStr (strftime u ''%Y-%m-%dT%H:%M:%SZ'')"
    by (simp add: dhw_time_until_def)
next
  assume "year v = year u \<and> month v = month u \<and> day v = day u"
  then show "quick_action_data status (Some v) = quick_action_data status (Some u)"
    by (simp add: quick_action_data_def strftime_date del: strftime.simps)
next
  assume a: "hour u < 24 \<and> minute u < 60 \<and> second u < 60 \<and> hour v < 24 \<and> minute v < 60 \<and> second v < 60
        \<and> (set_temperature_data temperature (Some u) = set_temperature_data temperature (Some v)
            \<or> dhw_time_until (Some u) = dhw_time_until (Some v))"
  then have "strftime u ''%Y-%m-%dT%H:%M:%SZ'' = strftime v ''%Y-%m-%dT%H:%M:%SZ''"
    by (auto simp: set_temperature_data_def dhw_time_until_def)
  with a have "hour u = hour v \<and> minute u = minute v \<and> second u = second v"
    by (intro time_suffix_inj) simp_all
  then show "hour u = hour v" "minute u = minute v" "second u = second v"
    by simp_all
qed

text \<open>The 4th of July 2023, at 18:30:05 and at 06:00:00.\<close>

theorem quick_action_time_truncated_witness:
  "quick_action_data ''Away'' (Some \<lparr>year = 2023, month = 7, day = 4, hour = 18, minute = 30, second = 5\<rparr>)
     = JObj [(''QuickAction'', JStr ''Away''), (''QuickActionNextTime'', JStr ''2023-07-04T00:00:00Z'')]
   \<and> quick_action_data ''Away'' (Some \<lparr>year = 2023, month = 7, day = 4, hour = 6, minute = 0, second = 0\<rparr>)
     = JObj [(''QuickAction'', JStr ''Away''), (''QuickActionNextTime'', JStr ''2023-07-04T00:00:00Z'')]
   \<and> set_temperature_data (JFloat 21) (Some \<lparr>year = 2023, month = 7, day = 4, hour = 18, minute = 30, second = 5\<rparr>)
     = JObj [(''Value'', JFloat 21), (''Status'', JStr ''Temporary''), (''NextTime'', JStr ''2023-07-04T18:30:05Z'')]
   \<and> dhw_time_until (Some \<lparr>year = 2023, month = 7, day = 4, hour = 18, minute = 30, second = 5\<rparr>)
     = JStr ''2023-07-04T18:30:05Z''"
proof -
  define u where "u = \<lparr>year = 2023, month = 7, day = 4, hour = 18, minute = 30, second = 5\<rparr>"
  define v where "v = \<lparr>year = 2023, month = 7, day = 4, hour = 6, minute = 0, second = 0\<rparr>"
  have d: "year v = year u \<and> month v = month u \<and> day v = day u"
    by (simp add: u_def v_def)
  note th = quick_action_time_truncated [of example_legacy "JInt 12345" "''Away''" u v "JFloat 21",
      THEN conjunct2]
  from th d have same: "quick_action_data ''Away'' (Some v) = quick_action_data ''Away'' (Some u)"
    by (simp only: simp_thms)
  have qa: "quick_action_data ''Away'' (Some u)
     = JObj [(''QuickAction'', JStr ''Away''), (''QuickActionNextTime'', JStr ''2023-07-04T00:00:00Z'')]"
    by (simp add: quick_action_data_def u_def strftime_directive_def zero_pad_def digit_char_def)
  have f: "strftime u ''%Y-%m-%dT%H:%M:%SZ'' = ''2023-07-04T18:30:05Z''"
    unfolding u_def by (rule strftime_example)
  from th have dt: "dhw_time_until (Some u) = JStr (strftime u ''%Y-%m-%dT%H:%M:%SZ'')"
    by (simp only: simp_thms)
  have st: "set_temperature_data (JFloat 21) (Some u)
     = JObj [(''Value'', JFloat 21), (''Status'', JStr ''Temporary''), (''NextTime'', JStr ''2023-07-04T18:30:05Z'')]"
    by (simp add: set_temperature_data_def f del: strftime.simps)
  from same qa dt st f show ?thesis
    unfolding u_def v_def by simp
qed

end
